theory Spec2Isabelle
  imports Main "HOL-Library.Word"
begin

unbundle bit_operations_syntax

section \<open>Data of the link hooks (pkg/security/ebpf/c/include/hooks/link.h)\<close>

type_synonym u8 = "8 word"
type_synonym u16 = "16 word"
type_synonym u32 = "32 word"
type_synonym u64 = "64 word"

text \<open>
  The enums and structs below are declared in headers that hooks/link.h includes
  (helpers/syscalls.h, helpers/filesystem.h, helpers/path_resolver.h); the hooks use the
  members listed here. A kernel pointer (struct dentry *, struct path *) is a 64-bit
  address, 0 being NULL.
\<close>

datatype event_type = EVENT_ANY | EVENT_LINK

datatype policy_mode = NO_FILTER | ALLOW_LIST | DENY_LIST

datatype callback_id = PR_PROGKEY_CB_UNSET | PR_PROGKEY_CB_LINK_SRC_KPROBE | PR_PROGKEY_CB_LINK_DST

datatype dr_type = DR_KPROBE | DR_TRACEPOINT

record policy_t =
  mode :: policy_mode
  policy_flags :: u8

record path_key_t =
  ino :: u64
  mount_id :: u32
  path_id :: u32

record file_metadata_t =
  nlink :: u32
  file_mode :: u16
  uid :: u32
  gid :: u32
  ctime :: u64
  mtime :: u64

record file_t =
  path_key :: path_key_t
  flags :: u32
  metadata :: file_metadata_t
  path_ref :: u64

record resolver_t =
  dentry :: u64
  key :: path_key_t
  discarder_type :: event_type
  callback :: callback_id
  iteration :: int
  ret :: int

record link_t =
  src_dentry :: u64
  target_dentry :: u64
  target_path :: u64
  src_file :: file_t
  target_file :: file_t

record syscall_cache_t =
  type :: event_type
  policy :: policy_t
  async :: u8
  discarded :: u8
  resolver :: resolver_t
  link :: link_t

record link_event_t =
  event_type :: event_type
  event_timestamp :: u64
  event_flags :: u32
  process :: nat
  container :: nat
  span :: nat
  syscall_retval :: int
  source :: file_t
  target :: file_t

record pt_regs =
  PT_REGS_PARM1 :: u64
  PT_REGS_PARM3 :: u64
  PT_REGS_PARM4 :: u64
  PT_REGS_RC :: u64

record sys_exit_args =
  sys_exit_ret :: u64

text \<open>The void *ctx of a program: the registers of a k(ret)probe, or the arguments of the
  sys_exit tracepoint.\<close>

datatype ctx = KPROBE_CTX pt_regs | TRACEPOINT_CTX sys_exit_args

text \<open>int retval = PT_REGS_RC(ctx), and args->ret passed as an int: the low 32 bits, signed.\<close>

definition ctx_retval :: "ctx \<Rightarrow> int" where
  "ctx_retval c =
     (case c of
        KPROBE_CTX r \<Rightarrow> sint (ucast (PT_REGS_RC r) :: 32 word)
      | TRACEPOINT_CTX a \<Rightarrow> sint (ucast (sys_exit_ret a) :: 32 word))"

definition SYNC_SYSCALL :: u8 where
  "SYNC_SYSCALL = 0"

definition ASYNC_SYSCALL :: u8 where
  "ASYNC_SYSCALL = 1"

subsection \<open>What one thread's programs share\<close>

text \<open>
  The maps and buffers the programs of one thread read and write: the syscall cache, the
  reference the path resolver left in the path ring buffer, the events sent to user space
  and the inode invalidations. discarded_monitor is the counter of monitor_discarded.
  pushes, pops and resolutions only record what happened: an entry stored by
  cache_syscall, an entry removed by pop_syscall, a resolver request that was dispatched.
\<close>

record state =
  syscalls :: "event_type \<rightharpoonup> syscall_cache_t"
  ring_buffer_ref :: u64
  events :: "link_event_t list"
  invalidations :: "(u32 \<times> u64 \<times> bool) list"
  discarded_monitor :: nat
  pushes :: nat
  pops :: nat
  resolutions :: "resolver_t list"

text \<open>How a dispatched path resolution ends, seen from the hooks: the tail call cannot be
  issued and control returns to the caller, or the resolver runs to a terminal state,
  leaves its return code in resolver.ret and a reference in the path ring buffer, and tail
  calls the callback named by resolver.callback.\<close>

datatype dr_outcome = TAIL_CALL_FAILED | TERMINAL int u64

text \<open>
  The helpers, macros and constants that hooks/link.h uses and that other headers and
  the kernel define: each is a parameter of the hooks.
\<close>

record env =
  fetch_policy :: "event_type \<Rightarrow> policy_t"
  is_discarded_by_process :: "policy_mode \<Rightarrow> event_type \<Rightarrow> bool"
  IS_UNHANDLED_ERROR :: "int \<Rightarrow> bool"
  is_event_enabled :: "event_type \<Rightarrow> bool"
  get_vfs_link_target_dentry_position :: u64
  VFS_ARG_POSITION4 :: u64
  get_path_mount_id :: "u64 \<Rightarrow> u32"
  set_file_inode :: "u64 \<Rightarrow> file_t \<Rightarrow> file_t"
  filter_syscall :: "syscall_cache_t \<Rightarrow> bool"
  fill_file_metadata :: "u64 \<Rightarrow> file_metadata_t"
  FAKE_INODE_MSW :: u32
  bpf_get_prandom_u32 :: u32
  is_overlayfs :: "u64 \<Rightarrow> bool"
  UPPER_LAYER :: u32
  DENTRY_DISCARDED :: int
  dentry_resolver :: "resolver_t \<Rightarrow> dr_outcome"
  bpf_ktime_get_ns :: u64
  EVENT_FLAGS_ASYNC :: u32
  fill_process_context :: nat
  fill_container_context :: nat
  fill_span_context :: nat

subsection \<open>The syscall cache\<close>

text \<open>
  Modelled from the spec: helpers/syscalls.h (cache_syscall, peek_syscall, pop_syscall,
  mark_as_discarded) is not among the sources. Section 4.1: push fails (a no-op) if an
  entry already exists for that key; peek returns the current entry or none; pop removes
  and returns it. The key is the event type, the thread being fixed.
\<close>

definition cache_syscall :: "syscall_cache_t \<Rightarrow> state \<Rightarrow> state" where
  "cache_syscall sc s =
     (case syscalls s (type sc) of
        Some _ \<Rightarrow> s
      | None \<Rightarrow> s\<lparr>syscalls := (syscalls s)(type sc \<mapsto> sc), pushes := Suc (pushes s)\<rparr>)"

definition peek_syscall :: "event_type \<Rightarrow> state \<Rightarrow> syscall_cache_t option" where
  "peek_syscall t s = syscalls s t"

definition pop_syscall :: "event_type \<Rightarrow> state \<Rightarrow> syscall_cache_t option \<times> state" where
  "pop_syscall t s =
     (case syscalls s t of
        None \<Rightarrow> (None, s)
      | Some sc \<Rightarrow> (Some sc, s\<lparr>syscalls := (syscalls s)(t := None), pops := Suc (pops s)\<rparr>))"

text \<open>A write through the pointer that peek_syscall returned for a key changes the entry
  cached under that key.\<close>

definition store_syscall :: "event_type \<Rightarrow> syscall_cache_t \<Rightarrow> state \<Rightarrow> state" where
  "store_syscall t sc s = s\<lparr>syscalls := (syscalls s)(t \<mapsto> sc)\<rparr>"

definition mark_as_discarded :: "syscall_cache_t \<Rightarrow> syscall_cache_t" where
  "mark_as_discarded sc = sc\<lparr>discarded := 1\<rparr>"

text \<open>Modelled from the spec: invalidate_inode (section 4.6) records an invalidation marker
  for the path key; its last argument is passed on as it is.\<close>

definition invalidate_inode :: "u32 \<Rightarrow> u64 \<Rightarrow> bool \<Rightarrow> state \<Rightarrow> state" where
  "invalidate_inode m i send s = s\<lparr>invalidations := invalidations s @ [(m, i, send)]\<rparr>"

definition monitor_discarded :: "event_type \<Rightarrow> state \<Rightarrow> state" where
  "monitor_discarded t s = s\<lparr>discarded_monitor := Suc (discarded_monitor s)\<rparr>"

text \<open>The zero-initialised members of a struct initialiser.\<close>

definition zero_path_key :: path_key_t where
  "zero_path_key = \<lparr>ino = 0, mount_id = 0, path_id = 0\<rparr>"

definition zero_file :: file_t where
  "zero_file =
     \<lparr>path_key = zero_path_key, flags = 0,
      metadata = \<lparr>nlink = 0, file_mode = 0, uid = 0, gid = 0, ctime = 0, mtime = 0\<rparr>,
      path_ref = 0\<rparr>"

definition zero_resolver :: resolver_t where
  "zero_resolver =
     \<lparr>dentry = 0, key = zero_path_key, discarder_type = EVENT_ANY,
      callback = PR_PROGKEY_CB_UNSET, iteration = 0, ret = 0\<rparr>"

definition zero_link :: link_t where
  "zero_link =
     \<lparr>src_dentry = 0, target_dentry = 0, target_path = 0, src_file = zero_file,
      target_file = zero_file\<rparr>"

section \<open>The hooks\<close>

subsection \<open>Syscall entry\<close>

text \<open>The struct initialiser of trace__sys_link (lines 17-21).\<close>

definition new_syscall :: "policy_t \<Rightarrow> u8 \<Rightarrow> syscall_cache_t" where
  "new_syscall p a =
     \<lparr>type = EVENT_LINK, policy = p, async = a, discarded = 0, resolver = zero_resolver,
      link = zero_link\<rparr>"

definition trace__sys_link :: "env \<Rightarrow> u8 \<Rightarrow> state \<Rightarrow> state" where
  "trace__sys_link e a s =
     (let p = fetch_policy e EVENT_LINK in
      if is_discarded_by_process e (mode p) EVENT_LINK then s
      else cache_syscall (new_syscall p a) s)"

definition kprobe_do_linkat :: "env \<Rightarrow> state \<Rightarrow> state" where
  "kprobe_do_linkat e s =
     (case peek_syscall EVENT_LINK s of
        None \<Rightarrow> trace__sys_link e ASYNC_SYSCALL s
      | Some sc \<Rightarrow> s)"

subsection \<open>The callbacks of the path resolver\<close>

definition fill_path_ring_buffer_ref :: "state \<Rightarrow> file_t \<Rightarrow> file_t" where
  "fill_path_ring_buffer_ref s f = f\<lparr>path_ref := ring_buffer_ref s\<rparr>"

definition kprobe_dr_link_src_callback :: "env \<Rightarrow> state \<Rightarrow> state" where
  "kprobe_dr_link_src_callback e s =
     (case peek_syscall EVENT_LINK s of
        None \<Rightarrow> s
      | Some sc \<Rightarrow>
          (let sc1 = link_update (src_file_update (fill_path_ring_buffer_ref s)) sc in
           if ret (resolver sc1) = DENTRY_DISCARDED e
           then store_syscall EVENT_LINK (mark_as_discarded sc1) (monitor_discarded EVENT_LINK s)
           else store_syscall EVENT_LINK sc1 s))"

text \<open>The event that dr_link_dst_callback builds (lines 182-194) and sends.\<close>

definition link_event :: "env \<Rightarrow> state \<Rightarrow> int \<Rightarrow> syscall_cache_t \<Rightarrow> link_event_t" where
  "link_event e s retval sc =
     \<lparr>event_type = EVENT_LINK,
      event_timestamp = bpf_ktime_get_ns e,
      event_flags = (if async sc \<noteq> 0 then EVENT_FLAGS_ASYNC e else 0),
      process = fill_process_context e,
      container = fill_container_context e,
      span = fill_span_context e,
      syscall_retval = retval,
      source = src_file (link sc),
      target = fill_path_ring_buffer_ref s (target_file (link sc))\<rparr>"

definition send_event :: "link_event_t \<Rightarrow> state \<Rightarrow> state" where
  "send_event ev s = s\<lparr>events := events s @ [ev]\<rparr>"

definition dr_link_dst_callback :: "env \<Rightarrow> int \<Rightarrow> state \<Rightarrow> state" where
  "dr_link_dst_callback e retval s =
     (case pop_syscall EVENT_LINK s of
        (None, s1) \<Rightarrow> s1
      | (Some sc, s1) \<Rightarrow>
          if IS_UNHANDLED_ERROR e retval then s1
          else send_event (link_event e s1 retval sc) s1)"

definition kprobe_dr_link_dst_callback :: "env \<Rightarrow> ctx \<Rightarrow> state \<Rightarrow> state" where
  "kprobe_dr_link_dst_callback e c s = dr_link_dst_callback e (ctx_retval c) s"

definition tracepoint_dr_link_dst_callback :: "env \<Rightarrow> ctx \<Rightarrow> state \<Rightarrow> state" where
  "tracepoint_dr_link_dst_callback e c s = dr_link_dst_callback e (ctx_retval c) s"

text \<open>
  Modelled from the spec: resolve_path and the resolver programs (helpers/path_resolver.h)
  are not among the sources. Section 4.3: the resolver runs on the request left in the
  cached entry until a terminal state and then invokes the completion handler selected by
  the callback id; the walk itself is summarised by \<^const>\<open>dentry_resolver\<close>. A tail call
  that is issued never returns to its caller: the first component of the result tells
  whether control left the caller.
\<close>

definition resolve_path :: "env \<Rightarrow> ctx \<Rightarrow> dr_type \<Rightarrow> state \<Rightarrow> bool \<times> state" where
  "resolve_path e c t s =
     (case peek_syscall EVENT_LINK s of
        None \<Rightarrow> (True, s)
      | Some sc \<Rightarrow>
          (case dentry_resolver e (resolver sc) of
             TAIL_CALL_FAILED \<Rightarrow> (False, s)
           | TERMINAL r reference \<Rightarrow>
               (let s1 = store_syscall EVENT_LINK (resolver_update (ret_update (\<lambda>_. r)) sc)
                           (s\<lparr>ring_buffer_ref := reference,
                              resolutions := resolutions s @ [resolver sc]\<rparr>)
                in (True,
                    case callback (resolver sc) of
                      PR_PROGKEY_CB_UNSET \<Rightarrow> s1
                    | PR_PROGKEY_CB_LINK_SRC_KPROBE \<Rightarrow> kprobe_dr_link_src_callback e s1
                    | PR_PROGKEY_CB_LINK_DST \<Rightarrow>
                        (case t of
                           DR_KPROBE \<Rightarrow> kprobe_dr_link_dst_callback e c s1
                         | DR_TRACEPOINT \<Rightarrow> tracepoint_dr_link_dst_callback e c s1)))))"

subsection \<open>kprobe/vfs_link\<close>

text \<open>Lines 56-70: the dentries, the mount id and the inode of the source. The
  bpf_probe_read of line 63 copies link.target_dentry onto itself; set_file_inode is
  called with its last argument 0.\<close>

definition vfs_link_capture :: "env \<Rightarrow> pt_regs \<Rightarrow> syscall_cache_t \<Rightarrow> syscall_cache_t" where
  "vfs_link_capture e regs sc =
     (let src = PT_REGS_PARM1 regs;
          sc1 = link_update (src_dentry_update (\<lambda>_. src)) sc;
          sc2 = link_update (target_dentry_update (\<lambda>_. PT_REGS_PARM3 regs)) sc1;
          sc3 = (if get_vfs_link_target_dentry_position e = VFS_ARG_POSITION4 e
                 then link_update (target_dentry_update (\<lambda>_. PT_REGS_PARM4 regs)) sc2
                 else sc2);
          sc4 = link_update (src_file_update (path_key_update (mount_id_update
                  (\<lambda>_. get_path_mount_id e (target_path (link sc3)))))) sc3
      in link_update (src_file_update (set_file_inode e src)) sc4)"

text \<open>Lines 76-91: the metadata, the fake key of the target and the resolver request for
  the source.\<close>

definition vfs_link_request :: "env \<Rightarrow> syscall_cache_t \<Rightarrow> syscall_cache_t" where
  "vfs_link_request e sc =
     (let src = src_dentry (link sc);
          sc1 = link_update (src_file_update (metadata_update (\<lambda>_. fill_file_metadata e src))) sc;
          sc2 = link_update (target_file_update
                  (metadata_update (\<lambda>_. metadata (src_file (link sc1))))) sc1;
          sc3 = link_update (target_file_update (path_key_update (ino_update
                  (\<lambda>_. push_bit 32 (ucast (FAKE_INODE_MSW e) :: u64)
                         OR ucast (bpf_get_prandom_u32 e))))) sc2;
          sc4 = link_update (target_file_update (path_key_update (mount_id_update
                  (\<lambda>_. mount_id (path_key (src_file (link sc3))))))) sc3;
          sc5 = (if is_overlayfs e src
                 then link_update (target_file_update
                        (flags_update (\<lambda>f. f OR UPPER_LAYER e))) sc4
                 else sc4)
      in sc5\<lparr>resolver :=
           \<lparr>dentry = src,
            key = path_key (src_file (link sc5)),
            discarder_type = (if mode (policy sc5) \<noteq> NO_FILTER then EVENT_LINK else EVENT_ANY),
            callback = PR_PROGKEY_CB_LINK_SRC_KPROBE,
            iteration = 0,
            ret = 0\<rparr>\<rparr>)"

definition kprobe_vfs_link :: "env \<Rightarrow> pt_regs \<Rightarrow> state \<Rightarrow> state" where
  "kprobe_vfs_link e regs s =
     (case peek_syscall EVENT_LINK s of
        None \<Rightarrow> s
      | Some sc \<Rightarrow>
          if target_dentry (link sc) \<noteq> 0 then s
          else
            (let sc1 = vfs_link_capture e regs sc in
             if filter_syscall e sc1 then store_syscall EVENT_LINK (mark_as_discarded sc1) s
             else snd (resolve_path e (KPROBE_CTX regs) DR_KPROBE
                         (store_syscall EVENT_LINK (vfs_link_request e sc1) s))))"

subsection \<open>Syscall exit\<close>

text \<open>Lines 133-138: the resolver request for the target.\<close>

definition link_dst_request :: "syscall_cache_t \<Rightarrow> syscall_cache_t" where
  "link_dst_request sc =
     sc\<lparr>resolver :=
        \<lparr>dentry = target_dentry (link sc),
         key = path_key (target_file (link sc)),
         discarder_type = EVENT_ANY,
         callback = PR_PROGKEY_CB_LINK_DST,
         iteration = 0,
         ret = 0\<rparr>\<rparr>"

definition sys_link_ret :: "env \<Rightarrow> ctx \<Rightarrow> int \<Rightarrow> dr_type \<Rightarrow> state \<Rightarrow> state" where
  "sys_link_ret e c retval t s =
     (if IS_UNHANDLED_ERROR e retval then s
      else
        (case peek_syscall EVENT_LINK s of
           None \<Rightarrow> s
         | Some sc \<Rightarrow>
             (let pass_to_userspace = (discarded sc = 0 \<and> is_event_enabled e EVENT_LINK);
                  s1 = (if 0 \<le> retval
                        then invalidate_inode (mount_id (path_key (src_file (link sc))))
                               (ino (path_key (src_file (link sc)))) (\<not> pass_to_userspace) s
                        else s)
              in if pass_to_userspace
                 then (case resolve_path e c t (store_syscall EVENT_LINK (link_dst_request sc) s1) of
                         (True, s2) \<Rightarrow> s2
                       | (False, s2) \<Rightarrow> snd (pop_syscall EVENT_LINK s2))
                 else snd (pop_syscall EVENT_LINK s1))))"

definition kretprobe_do_linkat :: "env \<Rightarrow> pt_regs \<Rightarrow> state \<Rightarrow> state" where
  "kretprobe_do_linkat e regs s =
     sys_link_ret e (KPROBE_CTX regs) (ctx_retval (KPROBE_CTX regs)) DR_KPROBE s"

definition kprobe_sys_link_ret :: "env \<Rightarrow> pt_regs \<Rightarrow> state \<Rightarrow> state" where
  "kprobe_sys_link_ret e regs s =
     sys_link_ret e (KPROBE_CTX regs) (ctx_retval (KPROBE_CTX regs)) DR_KPROBE s"

definition tracepoint_handle_sys_link_exit :: "env \<Rightarrow> sys_exit_args \<Rightarrow> state \<Rightarrow> state" where
  "tracepoint_handle_sys_link_exit e args s =
     sys_link_ret e (TRACEPOINT_CTX args) (ctx_retval (TRACEPOINT_CTX args)) DR_TRACEPOINT s"

subsection \<open>The programs attached to the kernel, and their runs on one thread\<close>

datatype probe =
    SYSCALL_KPROBE0_link
  | SYSCALL_KPROBE0_linkat
  | KPROBE_do_linkat
  | KPROBE_vfs_link pt_regs
  | KRETPROBE_do_linkat pt_regs
  | SYSCALL_KRETPROBE_link pt_regs
  | SYSCALL_KRETPROBE_linkat pt_regs
  | TRACEPOINT_handle_sys_link_exit sys_exit_args

fun fire :: "env \<Rightarrow> probe \<Rightarrow> state \<Rightarrow> state" where
  "fire e SYSCALL_KPROBE0_link s = trace__sys_link e SYNC_SYSCALL s"
| "fire e SYSCALL_KPROBE0_linkat s = trace__sys_link e SYNC_SYSCALL s"
| "fire e KPROBE_do_linkat s = kprobe_do_linkat e s"
| "fire e (KPROBE_vfs_link regs) s = kprobe_vfs_link e regs s"
| "fire e (KRETPROBE_do_linkat regs) s = kretprobe_do_linkat e regs s"
| "fire e (SYSCALL_KRETPROBE_link regs) s = kprobe_sys_link_ret e regs s"
| "fire e (SYSCALL_KRETPROBE_linkat regs) s = kprobe_sys_link_ret e regs s"
| "fire e (TRACEPOINT_handle_sys_link_exit args) s = tracepoint_handle_sys_link_exit e args s"

fun run :: "env \<Rightarrow> probe list \<Rightarrow> state \<Rightarrow> state" where
  "run e [] s = s"
| "run e (p # ps) s = run e ps (fire e p s)"

text \<open>The programs that fire, in order, on the thread of one link(2) call that reaches
  vfs_link: syscall entry, do_linkat, vfs_link, the return of do_linkat, syscall exit.\<close>

definition link_syscall :: "pt_regs \<Rightarrow> pt_regs \<Rightarrow> probe list" where
  "link_syscall regs ret_regs =
     [SYSCALL_KPROBE0_link, KPROBE_do_linkat, KPROBE_vfs_link regs,
      KRETPROBE_do_linkat ret_regs, SYSCALL_KRETPROBE_link ret_regs]"

section \<open>The segmented path resolver\<close>

text \<open>
  Modelled from the spec: the resolver programs (helpers/path_resolver.h) are not among
  the sources. Section 4.3: the states are RESOLVING and the terminal DONE, DISCARDED and
  ERROR. From a starting directory entry the resolver walks the ancestors toward the
  root and appends each component to the path-component buffer, until the root is
  reached or an ancestor is found in the external directory-resolution cache. Each
  invocation processes at most a fixed number of components; if the walk is incomplete
  at that limit, the state is handed to a continuation that resumes the walk. If a
  discarder type is set, each step tests an early-discard predicate against the
  accumulating path. A continuation that cannot be issued ends the walk in ERROR.

  A directory entry is identified with the chain of components from itself up to the
  root, the root being the empty chain.
\<close>

datatype resolver_status = RESOLVING | DONE | DISCARDED | ERROR

type_synonym component = string

type_synonym dentry_ref = "component list"

record resolver_state =
  current :: dentry_ref
  discarder :: event_type
  iterations :: nat
  path_buffer :: "component list"
  status :: resolver_status

text \<open>What the host and the external collaborators decide: the step budget of one
  invocation, the directory-resolution cache, the early-discard predicate of each event
  type, and whether the continuation after a given iteration can be issued.\<close>

record host =
  budget :: nat
  resolved :: "dentry_ref \<Rightarrow> bool"
  discards :: "event_type \<Rightarrow> component list \<Rightarrow> bool"
  continues :: "nat \<Rightarrow> bool"

definition resolver_start :: "dentry_ref \<Rightarrow> event_type \<Rightarrow> resolver_state" where
  "resolver_start d t =
     \<lparr>current = d, discarder = t, iterations = 0, path_buffer = [], status = RESOLVING\<rparr>"

definition walk_complete :: "host \<Rightarrow> resolver_state \<Rightarrow> bool" where
  "walk_complete h st = (current st = [] \<or> resolved h (current st))"

text \<open>One component: append it, move to the parent, test the discarder.\<close>

definition append_component :: "host \<Rightarrow> resolver_state \<Rightarrow> resolver_state" where
  "append_component h st =
     (case current st of
        [] \<Rightarrow> st\<lparr>status := DONE\<rparr>
      | c # parent \<Rightarrow>
          (let st1 = st\<lparr>current := parent, path_buffer := path_buffer st @ [c]\<rparr> in
           if discarder st \<noteq> EVENT_ANY \<and> discards h (discarder st) (path_buffer st1)
           then st1\<lparr>status := DISCARDED\<rparr>
           else st1))"

text \<open>One invocation with a budget of n components.\<close>

fun resolve_bounded :: "host \<Rightarrow> nat \<Rightarrow> resolver_state \<Rightarrow> resolver_state" where
  "resolve_bounded h n st =
     (if status st \<noteq> RESOLVING then st
      else if walk_complete h st then st\<lparr>status := DONE\<rparr>
      else (case n of
              0 \<Rightarrow> st
            | Suc k \<Rightarrow> resolve_bounded h k (append_component h st)))"

text \<open>The unbounded single-pass walk.\<close>

function single_pass :: "host \<Rightarrow> resolver_state \<Rightarrow> resolver_state" where
  "single_pass h st =
     (if status st \<noteq> RESOLVING then st
      else if walk_complete h st then st\<lparr>status := DONE\<rparr>
      else single_pass h (append_component h st))"
  by pat_completeness auto
termination
  by (relation "measure (\<lambda>(h, st). length (current st))")
     (auto simp: walk_complete_def append_component_def Let_def split: list.splits)

text \<open>The chain of invocations: an invocation that ends in a terminal state hands it to
  the completion handler; one that ends with the walk incomplete hands the state to the
  next continuation, or ends in ERROR when that continuation cannot be issued.\<close>

partial_function (option) resolve_segmented :: "host \<Rightarrow> resolver_state \<Rightarrow> resolver_state option"
where
  "resolve_segmented h st =
     (let st1 = resolve_bounded h (budget h) st in
      if status st1 \<noteq> RESOLVING then Some st1
      else if continues h (iterations st1)
      then resolve_segmented h (st1\<lparr>iterations := Suc (iterations st1)\<rparr>)
      else Some (st1\<lparr>status := ERROR\<rparr>))"

section \<open>read_into_buffer (pkg/network/ebpf/c/protocols/http/buffer.h)\<close>

text \<open>Memory as a map from 64-bit addresses to bytes; address arithmetic wraps around.\<close>

type_synonym memory = "u64 \<Rightarrow> u8"

text \<open>
  Modelled from the spec: bpf_memset (bpf_builtins.h) and
  bpf_probe_read_user_with_telemetry (bpf_telemetry.h) are not among the sources. The
  first sets n bytes from dst to a value. The second is the kernel's bounded copy from
  user memory: it writes sz bytes from dst on, the bytes read at src, or zeroes when
  the read faults.
\<close>

definition bpf_memset :: "memory \<Rightarrow> u64 \<Rightarrow> u8 \<Rightarrow> nat \<Rightarrow> memory" where
  "bpf_memset m dst v n = (\<lambda>a. if unat (a - dst) < n then v else m a)"

definition bpf_probe_read_user_with_telemetry ::
  "memory \<Rightarrow> bool \<Rightarrow> memory \<Rightarrow> u64 \<Rightarrow> u32 \<Rightarrow> u64 \<Rightarrow> memory" where
  "bpf_probe_read_user_with_telemetry user faults m dst sz src =
     (\<lambda>a. if unat (a - dst) < unat sz
          then (if faults then 0 else user (src + (a - dst)))
          else m a)"

text \<open>HTTP_BUFFER_SIZE is defined in protocols/http/types.h: a parameter here. data_size is
  a size_t, final_size a u32, and final_size - 1 is computed on 32 bits.\<close>

definition read_into_buffer ::
  "u64 \<Rightarrow> memory \<Rightarrow> bool \<Rightarrow> memory \<Rightarrow> u64 \<Rightarrow> u64 \<Rightarrow> u64 \<Rightarrow> memory" where
  "read_into_buffer HTTP_BUFFER_SIZE user faults m buffer data data_size =
     (let m1 = bpf_memset m buffer 0 (unat HTTP_BUFFER_SIZE);
          final_size =
            (ucast (if data_size < HTTP_BUFFER_SIZE then data_size else HTTP_BUFFER_SIZE) :: u32)
      in bpf_probe_read_user_with_telemetry user faults m1 buffer (final_size - 1) data)"

section \<open>Concrete inputs\<close>

text \<open>A thread on which no link call is pending and nothing has been sent yet.\<close>

definition fresh_state :: state where
  "fresh_state =
     \<lparr>syscalls = Map.empty, ring_buffer_ref = 0, events = [], invalidations = [],
      discarded_monitor = 0, pushes = 0, pops = 0, resolutions = []\<rparr>"

text \<open>
  An instance of the parameters: a deny-list policy that no process-level rule and no
  approver discards, every resolution running to a terminal state with return code 3,
  error codes other than EACCES (13) and EPERM (1) unhandled.
\<close>

definition example_env :: env where
  "example_env =
     \<lparr>fetch_policy = (\<lambda>_. \<lparr>mode = DENY_LIST, policy_flags = 0\<rparr>),
      is_discarded_by_process = (\<lambda>_ _. False),
      IS_UNHANDLED_ERROR = (\<lambda>r. r < 0 \<and> r \<noteq> - 13 \<and> r \<noteq> - 1),
      is_event_enabled = (\<lambda>_. True),
      get_vfs_link_target_dentry_position = 3,
      VFS_ARG_POSITION4 = 4,
      get_path_mount_id = (\<lambda>_. 27),
      set_file_inode = (\<lambda>d f. f\<lparr>path_key := (path_key f)\<lparr>ino := 4242\<rparr>\<rparr>),
      filter_syscall = (\<lambda>_. False),
      fill_file_metadata =
        (\<lambda>_. \<lparr>nlink = 1, file_mode = 420, uid = 1000, gid = 1000, ctime = 5, mtime = 6\<rparr>),
      FAKE_INODE_MSW = 0xdeadc001,
      bpf_get_prandom_u32 = 0x1234,
      is_overlayfs = (\<lambda>_. False),
      UPPER_LAYER = 2,
      DENTRY_DISCARDED = - 2,
      dentry_resolver =
        (\<lambda>r. TERMINAL 3 (if callback r = PR_PROGKEY_CB_LINK_DST then 200 else 100)),
      bpf_ktime_get_ns = 99,
      EVENT_FLAGS_ASYNC = 1,
      fill_process_context = 7,
      fill_container_context = 8,
      fill_span_context = 9\<rparr>"

text \<open>The registers at vfs_link (source dentry 0x1000, target dentry 0x2000), at a return
  with status 0 and at a return with status -2 (ENOENT).\<close>

definition vfs_link_regs :: pt_regs where
  "vfs_link_regs =
     \<lparr>PT_REGS_PARM1 = 0x1000, PT_REGS_PARM3 = 0x2000, PT_REGS_PARM4 = 0x3000, PT_REGS_RC = 0\<rparr>"

definition ret_ok_regs :: pt_regs where
  "ret_ok_regs = \<lparr>PT_REGS_PARM1 = 0, PT_REGS_PARM3 = 0, PT_REGS_PARM4 = 0, PT_REGS_RC = 0\<rparr>"

definition ret_enoent_regs :: pt_regs where
  "ret_enoent_regs =
     \<lparr>PT_REGS_PARM1 = 0, PT_REGS_PARM3 = 0, PT_REGS_PARM4 = 0,
      PT_REGS_RC = 0xFFFFFFFFFFFFFFFE\<rparr>"

text \<open>Variants of \<^const>\<open>example_env\<close>: the LINK event type disabled; the tail call to the
  resolver failing for the source path and succeeding for the target; a source inode
  whose high word is the fake marker and whose low word is the random number drawn; an
  approver set that discards every entry.\<close>

definition event_disabled_env :: env where
  "event_disabled_env = example_env\<lparr>is_event_enabled := \<lambda>_. False\<rparr>"

definition source_unresolved_env :: env where
  "source_unresolved_env =
     example_env\<lparr>dentry_resolver :=
       \<lambda>r. if callback r = PR_PROGKEY_CB_LINK_SRC_KPROBE then TAIL_CALL_FAILED
           else TERMINAL 3 200\<rparr>"

definition fake_range_inode_env :: env where
  "fake_range_inode_env =
     example_env\<lparr>set_file_inode :=
       \<lambda>d f. f\<lparr>path_key := (path_key f)\<lparr>ino := 0xdeadc00100001234\<rparr>\<rparr>\<rparr>"

definition denying_env :: env where
  "denying_env = example_env\<lparr>filter_syscall := \<lambda>_. True\<rparr>"


text \<open>The registers at vfs_link of a second link call on the same thread (source dentry
  0x5000, target dentry 0x6000).\<close>

definition second_link_regs :: pt_regs where
  "second_link_regs =
     \<lparr>PT_REGS_PARM1 = 0x5000, PT_REGS_PARM3 = 0x6000, PT_REGS_PARM4 = 0x7000, PT_REGS_RC = 0\<rparr>"

text \<open>More variants of \<^const>\<open>example_env\<close>: a process-level policy that discards the link
  event; the inode of a file being the address of its dentry; and, on top of that,
  approvers that discard the source dentry 0x5000.\<close>

definition process_discarding_env :: env where
  "process_discarding_env = example_env\<lparr>is_discarded_by_process := \<lambda>_ _. True\<rparr>"

definition inode_of_dentry_env :: env where
  "inode_of_dentry_env =
     example_env\<lparr>set_file_inode := \<lambda>d f. f\<lparr>path_key := (path_key f)\<lparr>ino := d\<rparr>\<rparr>\<rparr>"

definition deny_second_source_env :: env where
  "deny_second_source_env =
     inode_of_dentry_env\<lparr>filter_syscall := \<lambda>sc. src_dentry (link sc) = 0x5000\<rparr>"

text \<open>A host with a budget of two components per invocation, an empty directory-resolution
  cache, no discarder and every continuation issued; the directory entry of /a/b/c.\<close>

definition example_host :: host where
  "example_host =
     \<lparr>budget = 2, resolved = (\<lambda>_. False), discards = (\<lambda>_ _. False), continues = (\<lambda>_. True)\<rparr>"

definition abc_dentry :: dentry_ref where
  "abc_dentry = [''c'', ''b'', ''a'']"

text \<open>The same host with the ancestor /a in the directory-resolution cache, and the same
  host with no continuation issued.\<close>

definition cached_ancestor_host :: host where
  "cached_ancestor_host = example_host\<lparr>resolved := \<lambda>d. d = [''a'']\<rparr>"

definition no_continuation_host :: host where
  "no_continuation_host = example_host\<lparr>continues := \<lambda>_. False\<rparr>"

text \<open>Kernel memory filled with 0x55 and user memory filled with the letter A (0x41).\<close>

definition poisoned_memory :: memory where
  "poisoned_memory = (\<lambda>_. 0x55)"

definition user_As :: memory where
  "user_As = (\<lambda>_. 0x41)"


section \<open>Properties of the link hooks\<close>

lemmas cache_defs = cache_syscall_def peek_syscall_def pop_syscall_def store_syscall_def

lemmas hook_defs = link_syscall_def trace__sys_link_def kprobe_do_linkat_def kprobe_vfs_link_def
  kretprobe_do_linkat_def kprobe_sys_link_ret_def tracepoint_handle_sys_link_exit_def
  sys_link_ret_def resolve_path_def kprobe_dr_link_src_callback_def dr_link_dst_callback_def
  kprobe_dr_link_dst_callback_def tracepoint_dr_link_dst_callback_def cache_defs
  mark_as_discarded_def invalidate_inode_def monitor_discarded_def new_syscall_def
  vfs_link_capture_def vfs_link_request_def link_dst_request_def send_event_def link_event_def
  fill_path_ring_buffer_ref_def ctx_retval_def SYNC_SYSCALL_def ASYNC_SYSCALL_def zero_link_def
  zero_file_def zero_resolver_def zero_path_key_def

lemmas example_defs = fresh_state_def example_env_def vfs_link_regs_def ret_ok_regs_def
  ret_enoent_regs_def event_disabled_env_def source_unresolved_env_def fake_range_inode_env_def
  denying_env_def second_link_regs_def process_discarding_env_def inode_of_dentry_env_def
  deny_second_source_env_def

lemma run_append: "run e (ps @ qs) s = run e qs (run e ps s)"
  by (induction ps arbitrary: s) simp_all

subsection \<open>Discard by process-level policy\<close>

lemma trace__sys_link_discarded:
  "is_discarded_by_process e (mode (fetch_policy e EVENT_LINK)) EVENT_LINK \<Longrightarrow>
   trace__sys_link e a s = s"
  by (simp add: trace__sys_link_def)

lemma sys_link_ret_no_entry: "syscalls s EVENT_LINK = None \<Longrightarrow> sys_link_ret e c r t s = s"
  by (simp add: sys_link_ret_def peek_syscall_def)

lemma fire_discarded_by_process:
  assumes "is_discarded_by_process e (mode (fetch_policy e EVENT_LINK)) EVENT_LINK"
    and "syscalls s EVENT_LINK = None"
  shows "fire e p s = s"
  using assms
  by (cases p)
     (simp_all add: trace__sys_link_discarded sys_link_ret_no_entry kprobe_do_linkat_def
        kprobe_vfs_link_def kretprobe_do_linkat_def kprobe_sys_link_ret_def
        tracepoint_handle_sys_link_exit_def peek_syscall_def)

lemma run_discarded_by_process:
  assumes "is_discarded_by_process e (mode (fetch_policy e EVENT_LINK)) EVENT_LINK"
    and "syscalls s EVENT_LINK = None"
  shows "run e ps s = s"
  using assms by (induction ps) (simp_all add: fire_discarded_by_process)

text \<open>
  On a thread with no pending link entry: when the process-level policy discards the
  link event (is_discarded_by_process is true for the mode of the fetched policy), then
  whatever programs of the link monitor fire afterwards, in whatever order and with
  whatever registers and return values, no entry is ever stored in the syscall cache and
  no event is ever sent: the run leaves the whole state as it was.
\<close>

theorem process_discard_never_caches_nor_emits:
  assumes "is_discarded_by_process e (mode (fetch_policy e EVENT_LINK)) EVENT_LINK"
    and "syscalls s EVENT_LINK = None"
  shows "syscalls (run e ps s) EVENT_LINK = None \<and> pushes (run e ps s) = pushes s
         \<and> events (run e ps s) = events s \<and> run e ps s = s"
  using assms by (simp add: run_discarded_by_process)

theorem process_discard_never_caches_nor_emits_witness:
  "is_discarded_by_process (example_env\<lparr>is_discarded_by_process := \<lambda>_ _. True\<rparr>)
     (mode (fetch_policy (example_env\<lparr>is_discarded_by_process := \<lambda>_ _. True\<rparr>) EVENT_LINK))
     EVENT_LINK
   \<and> syscalls fresh_state EVENT_LINK = None
   \<and> pushes (run (example_env\<lparr>is_discarded_by_process := \<lambda>_ _. True\<rparr>)
        (link_syscall vfs_link_regs ret_ok_regs) fresh_state) = 0
   \<and> events (run (example_env\<lparr>is_discarded_by_process := \<lambda>_ _. True\<rparr>)
        (link_syscall vfs_link_regs ret_ok_regs) fresh_state) = []"
proof -
  let ?e = "example_env\<lparr>is_discarded_by_process := \<lambda>_ _. True\<rparr>"
  have h1: "is_discarded_by_process ?e (mode (fetch_policy ?e EVENT_LINK)) EVENT_LINK"
    by simp
  have h2: "syscalls fresh_state EVENT_LINK = None"
    by (simp add: fresh_state_def)
  from process_discard_never_caches_nor_emits [OF h1 h2, of "link_syscall vfs_link_regs ret_ok_regs"]
  show ?thesis using h1 h2 by (simp add: fresh_state_def)
qed

subsection \<open>A second vfs_link on the same instance\<close>

text \<open>
  C10. When the cached link entry already has a non-null link.target_dentry, a further
  invocation of kprobe_vfs_link returns at once: the state is the one before the call,
  so the cached entry (dentries, file records, resolver request) is unchanged and no
  resolution is dispatched.
\<close>

theorem kprobe_vfs_link_idempotent:
  assumes "peek_syscall EVENT_LINK s = Some sc" and "target_dentry (link sc) \<noteq> 0"
  shows "kprobe_vfs_link e regs s = s"
  using assms by (simp add: kprobe_vfs_link_def)

theorem kprobe_vfs_link_idempotent_witness:
  "peek_syscall EVENT_LINK
     (run example_env [SYSCALL_KPROBE0_link, KPROBE_do_linkat, KPROBE_vfs_link vfs_link_regs]
        fresh_state) \<noteq> None
   \<and> target_dentry (link (the (peek_syscall EVENT_LINK
        (run example_env [SYSCALL_KPROBE0_link, KPROBE_do_linkat, KPROBE_vfs_link vfs_link_regs]
           fresh_state)))) = 0x2000
   \<and> kprobe_vfs_link example_env ret_ok_regs
        (run example_env [SYSCALL_KPROBE0_link, KPROBE_do_linkat, KPROBE_vfs_link vfs_link_regs]
           fresh_state)
      = run example_env [SYSCALL_KPROBE0_link, KPROBE_do_linkat, KPROBE_vfs_link vfs_link_regs]
          fresh_state"
proof -
  let ?s = "run example_env
              [SYSCALL_KPROBE0_link, KPROBE_do_linkat, KPROBE_vfs_link vfs_link_regs] fresh_state"
  have h0: "peek_syscall EVENT_LINK ?s \<noteq> None"
    by (simp add: hook_defs example_defs Let_def)
  then obtain sc where h1: "peek_syscall EVENT_LINK ?s = Some sc"
    by blast
  have h2: "target_dentry (link (the (peek_syscall EVENT_LINK ?s))) = 0x2000"
    by (simp add: hook_defs example_defs Let_def)
  with h1 have h3: "target_dentry (link sc) \<noteq> 0"
    by simp
  from kprobe_vfs_link_idempotent [OF h1 h3, of example_env ret_ok_regs]
  show ?thesis using h0 h2 by simp
qed

subsection \<open>The steps of one link call\<close>

lemma fill_path_ring_buffer_ref_fun:
  "fill_path_ring_buffer_ref s = path_ref_update (\<lambda>_. ring_buffer_ref s)"
  by (rule ext) (simp add: fill_path_ring_buffer_ref_def)

lemma vfs_link_request_callback [simp]:
  "callback (resolver (vfs_link_request e sc)) = PR_PROGKEY_CB_LINK_SRC_KPROBE"
  by (simp add: vfs_link_request_def Let_def)

lemma vfs_link_request_kept [simp]:
  "discarded (vfs_link_request e sc) = discarded sc"
  "async (vfs_link_request e sc) = async sc"
  by (simp_all add: vfs_link_request_def Let_def)

lemma vfs_link_capture_kept [simp]:
  "discarded (vfs_link_capture e regs sc) = discarded sc"
  "async (vfs_link_capture e regs sc) = async sc"
  by (simp_all add: vfs_link_capture_def Let_def)

lemma link_dst_request_simps [simp]:
  "callback (resolver (link_dst_request sc)) = PR_PROGKEY_CB_LINK_DST"
  "link (link_dst_request sc) = link sc"
  "async (link_dst_request sc) = async sc"
  "discarded (link_dst_request sc) = discarded sc"
  by (simp_all add: link_dst_request_def)

lemma entry_accepted:
  assumes "syscalls s EVENT_LINK = None"
    and "\<not> is_discarded_by_process e (mode (fetch_policy e EVENT_LINK)) EVENT_LINK"
  shows "kprobe_do_linkat e (trace__sys_link e SYNC_SYSCALL s) =
         s\<lparr>syscalls := (syscalls s)(EVENT_LINK \<mapsto> new_syscall (fetch_policy e EVENT_LINK) SYNC_SYSCALL),
           pushes := Suc (pushes s)\<rparr>"
  using assms
  by (simp add: trace__sys_link_def kprobe_do_linkat_def cache_defs new_syscall_def)

lemma vfs_link_fresh:
  assumes "syscalls s EVENT_LINK = Some sc" and "target_dentry (link sc) = 0"
  shows "kprobe_vfs_link e regs s =
     (let sc1 = vfs_link_capture e regs sc in
      if filter_syscall e sc1 then store_syscall EVENT_LINK (mark_as_discarded sc1) s
      else (case dentry_resolver e (resolver (vfs_link_request e sc1)) of
              TAIL_CALL_FAILED \<Rightarrow> store_syscall EVENT_LINK (vfs_link_request e sc1) s
            | TERMINAL r reference \<Rightarrow>
                (let sc2 = link_update (src_file_update (path_ref_update (\<lambda>_. reference)))
                             (resolver_update (ret_update (\<lambda>_. r)) (vfs_link_request e sc1));
                     s2 = s\<lparr>ring_buffer_ref := reference,
                            resolutions := resolutions s @ [resolver (vfs_link_request e sc1)]\<rparr>
                 in if r = DENTRY_DISCARDED e
                    then store_syscall EVENT_LINK (mark_as_discarded sc2) (monitor_discarded EVENT_LINK s2)
                    else store_syscall EVENT_LINK sc2 s2)))"
  using assms
  by (simp add: kprobe_vfs_link_def resolve_path_def kprobe_dr_link_src_callback_def
      peek_syscall_def store_syscall_def Let_def fill_path_ring_buffer_ref_fun
      monitor_discarded_def mark_as_discarded_def
      split: dr_outcome.splits)

lemma sys_link_ret_entry:
  assumes "syscalls s EVENT_LINK = Some sc" and "\<not> IS_UNHANDLED_ERROR e (ctx_retval c)"
  shows "sys_link_ret e c (ctx_retval c) t s =
     (let pass = (discarded sc = 0 \<and> is_event_enabled e EVENT_LINK);
          s1 = (if 0 \<le> ctx_retval c
                then invalidate_inode (mount_id (path_key (src_file (link sc))))
                       (ino (path_key (src_file (link sc)))) (\<not> pass) s
                else s);
          s2 = s1\<lparr>syscalls := (syscalls s)(EVENT_LINK := None), pops := Suc (pops s)\<rparr>
      in if pass
         then (case dentry_resolver e (resolver (link_dst_request sc)) of
                 TAIL_CALL_FAILED \<Rightarrow> s2
               | TERMINAL r reference \<Rightarrow>
                   send_event
                     (link_event e (s2\<lparr>ring_buffer_ref := reference\<rparr>) (ctx_retval c)
                        (resolver_update (ret_update (\<lambda>_. r)) (link_dst_request sc)))
                     (s2\<lparr>ring_buffer_ref := reference,
                         resolutions := resolutions s @ [resolver (link_dst_request sc)]\<rparr>))
         else s2)"
  using assms
  by (cases t)
     (simp_all add: sys_link_ret_def resolve_path_def dr_link_dst_callback_def
      kprobe_dr_link_dst_callback_def tracepoint_dr_link_dst_callback_def
      peek_syscall_def store_syscall_def pop_syscall_def Let_def
      invalidate_inode_def send_event_def link_event_def fill_path_ring_buffer_ref_def
      split: dr_outcome.splits)

lemma sys_link_ret_unhandled: "IS_UNHANDLED_ERROR e r \<Longrightarrow> sys_link_ret e c r t s = s"
  by (simp add: sys_link_ret_def)

lemma sys_link_ret_pops:
  assumes "syscalls s EVENT_LINK = Some sc" and "\<not> IS_UNHANDLED_ERROR e (ctx_retval c)"
  shows "syscalls (sys_link_ret e c (ctx_retval c) t s) EVENT_LINK = None"
    and "pops (sys_link_ret e c (ctx_retval c) t s) = Suc (pops s)"
    and "pushes (sys_link_ret e c (ctx_retval c) t s) = pushes s"
  by (simp_all add: sys_link_ret_entry [OF assms] Let_def send_event_def invalidate_inode_def
      split: dr_outcome.splits)

lemma sys_link_ret_twice:
  "sys_link_ret e c (ctx_retval c) t' (sys_link_ret e c (ctx_retval c) t s)
   = sys_link_ret e c (ctx_retval c) t s"
proof (cases "IS_UNHANDLED_ERROR e (ctx_retval c)")
  case True
  then show ?thesis by (simp add: sys_link_ret_unhandled)
next
  case False
  show ?thesis
  proof (cases "syscalls s EVENT_LINK")
    case None
    then show ?thesis by (simp add: sys_link_ret_no_entry)
  next
    case (Some sc)
    from sys_link_ret_pops(1) [OF Some False] show ?thesis
      by (rule sys_link_ret_no_entry)
  qed
qed

lemma run_link_syscall:
  "run e (link_syscall regs ret_regs) s =
   sys_link_ret e (KPROBE_CTX ret_regs) (ctx_retval (KPROBE_CTX ret_regs)) DR_KPROBE
     (kprobe_vfs_link e regs (kprobe_do_linkat e (trace__sys_link e SYNC_SYSCALL s)))"
  by (simp add: link_syscall_def kretprobe_do_linkat_def kprobe_sys_link_ret_def sys_link_ret_twice)

lemma new_syscall_simps [simp]:
  "target_dentry (link (new_syscall p a)) = 0"
  "discarded (new_syscall p a) = 0"
  "async (new_syscall p a) = a"
  by (simp_all add: new_syscall_def zero_link_def)

lemma fake_inode_high:
  "drop_bit 32 (push_bit 32 (ucast (f :: 32 word) :: 64 word) OR ucast (r :: 32 word)) = ucast f"
  by (rule bit_word_eqI) (auto simp add: bit_simps dest: bit_imp_le_length)

lemma fake_inode_low:
  "(ucast (push_bit 32 (ucast (f :: 32 word) :: 64 word) OR ucast (r :: 32 word)) :: 32 word) = r"
  by (rule bit_word_eqI) (auto simp add: bit_simps dest: bit_imp_le_length)

lemma vfs_link_request_target:
  "ino (path_key (target_file (link (vfs_link_request e sc))))
     = push_bit 32 (ucast (FAKE_INODE_MSW e)) OR ucast (bpf_get_prandom_u32 e)"
  "metadata (target_file (link (vfs_link_request e sc)))
     = metadata (src_file (link (vfs_link_request e sc)))"
  "mount_id (path_key (target_file (link (vfs_link_request e sc))))
     = mount_id (path_key (src_file (link (vfs_link_request e sc))))"
  by (simp_all add: vfs_link_request_def Let_def)

lemma sys_link_ret_events:
  assumes "syscalls s EVENT_LINK = Some sc"
  shows "events (sys_link_ret e c (ctx_retval c) t s) =
     (if \<not> IS_UNHANDLED_ERROR e (ctx_retval c) \<and> discarded sc = 0 \<and> is_event_enabled e EVENT_LINK
      then (case dentry_resolver e (resolver (link_dst_request sc)) of
              TAIL_CALL_FAILED \<Rightarrow> events s
            | TERMINAL r reference \<Rightarrow>
                events s @
                [\<lparr>event_type = EVENT_LINK,
                  event_timestamp = bpf_ktime_get_ns e,
                  event_flags = (if async sc \<noteq> 0 then EVENT_FLAGS_ASYNC e else 0),
                  process = fill_process_context e,
                  container = fill_container_context e,
                  span = fill_span_context e,
                  syscall_retval = ctx_retval c,
                  source = src_file (link sc),
                  target = (target_file (link sc))\<lparr>path_ref := reference\<rparr>\<rparr>])
      else events s)"
proof (cases "IS_UNHANDLED_ERROR e (ctx_retval c)")
  case True
  then show ?thesis by (simp add: sys_link_ret_unhandled)
next
  case False
  show ?thesis
    using False
    by (simp add: sys_link_ret_entry [OF assms False] Let_def send_event_def link_event_def
        invalidate_inode_def fill_path_ring_buffer_ref_def split: dr_outcome.splits)
qed

text \<open>The entry that vfs_link leaves for an instance that entered through the syscall.\<close>

lemma vfs_link_entry:
  assumes fresh: "syscalls s EVENT_LINK = None"
    and accepted: "\<not> is_discarded_by_process e (mode (fetch_policy e EVENT_LINK)) EVENT_LINK"
    and sc1: "sc1 = vfs_link_capture e regs (new_syscall (fetch_policy e EVENT_LINK) SYNC_SYSCALL)"
    and s2: "s2 = kprobe_vfs_link e regs (kprobe_do_linkat e (trace__sys_link e SYNC_SYSCALL s))"
  shows "events s2 = events s \<and> pushes s2 = Suc (pushes s) \<and> pops s2 = pops s \<and>
         (\<exists>sc. syscalls s2 EVENT_LINK = Some sc \<and> async sc = 0 \<and>
            (discarded sc = 0 \<longrightarrow>
               \<not> filter_syscall e sc1 \<and>
               target_file (link sc) = target_file (link (vfs_link_request e sc1)) \<and>
               path_key (src_file (link sc)) = path_key (src_file (link (vfs_link_request e sc1))) \<and>
               metadata (src_file (link sc)) = metadata (src_file (link (vfs_link_request e sc1)))))"
proof -
  define s1 where "s1 = kprobe_do_linkat e (trace__sys_link e SYNC_SYSCALL s)"
  have s1_eq: "s1 = s\<lparr>syscalls := (syscalls s)(EVENT_LINK \<mapsto>
                   new_syscall (fetch_policy e EVENT_LINK) SYNC_SYSCALL),
                 pushes := Suc (pushes s)\<rparr>"
    unfolding s1_def by (rule entry_accepted [OF fresh accepted])
  have e1: "syscalls s1 EVENT_LINK = Some (new_syscall (fetch_policy e EVENT_LINK) SYNC_SYSCALL)"
    by (simp add: s1_eq)
  have ev1: "events s1 = events s" "pushes s1 = Suc (pushes s)" "pops s1 = pops s"
    by (simp_all add: s1_eq)
  have s2': "s2 = kprobe_vfs_link e regs s1"
    by (simp add: s2 s1_def)
  show ?thesis
    unfolding s2' vfs_link_fresh [OF e1 new_syscall_simps(1)] sc1 [symmetric]
    by (simp add: Let_def store_syscall_def mark_as_discarded_def monitor_discarded_def ev1
        SYNC_SYSCALL_def sc1 split: dr_outcome.splits)
qed


lemma fake_inode_distinct:
  assumes "drop_bit 32 (i :: 64 word) \<noteq> ucast (f :: 32 word)"
  shows "push_bit 32 (ucast f :: 64 word) OR ucast (r :: 32 word) \<noteq> i"
  using assms fake_inode_high [of f r] by auto

lemma link_syscall_outcome:
  assumes fresh: "syscalls s EVENT_LINK = None"
  shows "events (run e (link_syscall regs ret_regs) s) = events s
         \<or> (\<exists>sc r reference.
               syscalls (run e [SYSCALL_KPROBE0_link, KPROBE_do_linkat, KPROBE_vfs_link regs] s)
                 EVENT_LINK = Some sc
               \<and> discarded sc = 0 \<and> async sc = 0
               \<and> target_file (link sc) = target_file (link (vfs_link_request e
                    (vfs_link_capture e regs (new_syscall (fetch_policy e EVENT_LINK) SYNC_SYSCALL))))
               \<and> path_key (src_file (link sc)) = path_key (src_file (link (vfs_link_request e
                    (vfs_link_capture e regs (new_syscall (fetch_policy e EVENT_LINK) SYNC_SYSCALL)))))
               \<and> metadata (src_file (link sc)) = metadata (src_file (link (vfs_link_request e
                    (vfs_link_capture e regs (new_syscall (fetch_policy e EVENT_LINK) SYNC_SYSCALL)))))
               \<and> \<not> IS_UNHANDLED_ERROR e (ctx_retval (KPROBE_CTX ret_regs))
               \<and> is_event_enabled e EVENT_LINK
               \<and> dentry_resolver e (resolver (link_dst_request sc)) = TERMINAL r reference
               \<and> events (run e (link_syscall regs ret_regs) s) =
                   events s @
                   [\<lparr>event_type = EVENT_LINK,
                     event_timestamp = bpf_ktime_get_ns e,
                     event_flags = 0,
                     process = fill_process_context e,
                     container = fill_container_context e,
                     span = fill_span_context e,
                     syscall_retval = ctx_retval (KPROBE_CTX ret_regs),
                     source = src_file (link sc),
                     target = (target_file (link sc))\<lparr>path_ref := reference\<rparr>\<rparr>])"
proof (cases "is_discarded_by_process e (mode (fetch_policy e EVENT_LINK)) EVENT_LINK")
  case True
  then show ?thesis by (simp add: run_discarded_by_process [OF True fresh])
next
  case False
  define s2 where "s2 = kprobe_vfs_link e regs (kprobe_do_linkat e (trace__sys_link e SYNC_SYSCALL s))"
  have three: "run e [SYSCALL_KPROBE0_link, KPROBE_do_linkat, KPROBE_vfs_link regs] s = s2"
    by (simp add: s2_def)
  have whole: "run e (link_syscall regs ret_regs) s =
      sys_link_ret e (KPROBE_CTX ret_regs) (ctx_retval (KPROBE_CTX ret_regs)) DR_KPROBE s2"
    by (simp add: run_link_syscall s2_def)
  from vfs_link_entry [OF fresh False refl s2_def]
  obtain sc where ev2: "events s2 = events s"
    and e2: "syscalls s2 EVENT_LINK = Some sc"
    and sync: "async sc = 0"
    and live: "discarded sc = 0 \<longrightarrow>
         target_file (link sc) = target_file (link (vfs_link_request e
           (vfs_link_capture e regs (new_syscall (fetch_policy e EVENT_LINK) SYNC_SYSCALL))))
       \<and> path_key (src_file (link sc)) = path_key (src_file (link (vfs_link_request e
           (vfs_link_capture e regs (new_syscall (fetch_policy e EVENT_LINK) SYNC_SYSCALL)))))
       \<and> metadata (src_file (link sc)) = metadata (src_file (link (vfs_link_request e
           (vfs_link_capture e regs (new_syscall (fetch_policy e EVENT_LINK) SYNC_SYSCALL)))))"
    by blast
  show ?thesis
  proof (cases "\<not> IS_UNHANDLED_ERROR e (ctx_retval (KPROBE_CTX ret_regs)) \<and> discarded sc = 0
                \<and> is_event_enabled e EVENT_LINK")
    case False
    then have "events (run e (link_syscall regs ret_regs) s) = events s"
      unfolding whole sys_link_ret_events [OF e2] by (auto simp add: ev2)
    then show ?thesis by simp
  next
    case True
    show ?thesis
    proof (cases "dentry_resolver e (resolver (link_dst_request sc))")
      case TAIL_CALL_FAILED
      then have "events (run e (link_syscall regs ret_regs) s) = events s"
        unfolding whole sys_link_ret_events [OF e2] using True by (simp add: ev2)
      then show ?thesis by simp
    next
      case (TERMINAL r reference)
      have "events (run e (link_syscall regs ret_regs) s) =
            events s @
            [\<lparr>event_type = EVENT_LINK,
              event_timestamp = bpf_ktime_get_ns e,
              event_flags = 0,
              process = fill_process_context e,
              container = fill_container_context e,
              span = fill_span_context e,
              syscall_retval = ctx_retval (KPROBE_CTX ret_regs),
              source = src_file (link sc),
              target = (target_file (link sc))\<lparr>path_ref := reference\<rparr>\<rparr>]"
        unfolding whole sys_link_ret_events [OF e2] using True TERMINAL by (simp add: ev2 sync)
      with True TERMINAL e2 sync live show ?thesis
        unfolding three by blast
    qed
  qed
qed


lemma link_syscall_balanced:
  assumes fresh: "syscalls s EVENT_LINK = None"
    and handled: "\<not> IS_UNHANDLED_ERROR e (ctx_retval (KPROBE_CTX ret_regs))"
  shows "syscalls (run e (link_syscall regs ret_regs) s) EVENT_LINK = None
         \<and> pushes (run e (link_syscall regs ret_regs) s) - pushes s
           = pops (run e (link_syscall regs ret_regs) s) - pops s"
proof (cases "is_discarded_by_process e (mode (fetch_policy e EVENT_LINK)) EVENT_LINK")
  case True
  then show ?thesis by (simp add: run_discarded_by_process [OF True fresh] fresh)
next
  case False
  define s2 where "s2 = kprobe_vfs_link e regs (kprobe_do_linkat e (trace__sys_link e SYNC_SYSCALL s))"
  have whole: "run e (link_syscall regs ret_regs) s =
      sys_link_ret e (KPROBE_CTX ret_regs) (ctx_retval (KPROBE_CTX ret_regs)) DR_KPROBE s2"
    by (simp add: run_link_syscall s2_def)
  from vfs_link_entry [OF fresh False refl s2_def]
  obtain sc where e2: "syscalls s2 EVENT_LINK = Some sc"
    and counts: "pushes s2 = Suc (pushes s)" "pops s2 = pops s"
    by blast
  show ?thesis
    unfolding whole by (simp add: sys_link_ret_pops [OF e2 handled] counts)
qed

subsection \<open>Push and pop of the cache entry\<close>

text \<open>
  C1. The specification pairs every push of an entry at syscall entry with exactly one
  pop on every outcome, the unhandled error return included. Where the return value is not
  an unhandled error the pairing holds (\<open>link_syscall_balanced\<close>). On an unhandled error
  sys_link_ret returns before it looks at the cache: for a link call that returns -2
  (ENOENT) the entry pushed at syscall entry is never popped.
\<close>

theorem unhandled_error_push_without_pop:
  "IS_UNHANDLED_ERROR example_env (ctx_retval (KPROBE_CTX ret_enoent_regs))
   \<and> pushes (run example_env (link_syscall vfs_link_regs ret_enoent_regs) fresh_state) = 1
   \<and> pops (run example_env (link_syscall vfs_link_regs ret_enoent_regs) fresh_state) = 0"
  by (simp add: hook_defs example_defs Let_def)


text \<open>
  C5. The specification says that on an unhandled error the processing of the instance
  aborts, no event is emitted and the cache entry is still reclaimed. No event is
  emitted, but the entry is not reclaimed: after the whole link call that returned -2 it
  is still in the cache.
\<close>

theorem unhandled_error_leaves_entry_cached:
  "ctx_retval (KPROBE_CTX ret_enoent_regs) = - 2
   \<and> IS_UNHANDLED_ERROR example_env (- 2)
   \<and> events (run example_env (link_syscall vfs_link_regs ret_enoent_regs) fresh_state) = []
   \<and> syscalls (run example_env (link_syscall vfs_link_regs ret_enoent_regs) fresh_state)
        EVENT_LINK \<noteq> None"
  by (simp add: hook_defs example_defs Let_def)


text \<open>
  C3. The specification says that an instance discarded at entry by process-level policy
  never allocates a cache entry and never emits an event, however the syscall later
  completes. trace__sys_link returns before cache_syscall, so no entry is allocated. But
  the entry that an earlier call of the thread left behind when it returned an unhandled
  error (C1, C5) is still pending: the exit probe of the discarded call finds it and
  sends an event built from it. Here the first link call returns -2, the process-level
  policy then discards the link event, and the second link call emits one event.
\<close>

theorem stale_entry_emits_for_process_discarded_call:
  "is_discarded_by_process process_discarding_env
     (mode (fetch_policy process_discarding_env EVENT_LINK)) EVENT_LINK
   \<and> events (run example_env (link_syscall vfs_link_regs ret_enoent_regs) fresh_state) = []
   \<and> pushes (run example_env (link_syscall vfs_link_regs ret_enoent_regs) fresh_state) = 1
   \<and> pushes (run process_discarding_env (link_syscall second_link_regs ret_ok_regs)
        (run example_env (link_syscall vfs_link_regs ret_enoent_regs) fresh_state)) = 1
   \<and> length (events (run process_discarding_env (link_syscall second_link_regs ret_ok_regs)
        (run example_env (link_syscall vfs_link_regs ret_enoent_regs) fresh_state))) = 1"
  by (simp add: hook_defs example_defs Let_def)


subsection \<open>Emission\<close>

text \<open>
  C2, as stated, fails: with the LINK event type disabled (is_event_enabled), an
  instance that nothing discarded and that returned 0 emits no event.
\<close>

theorem disabled_event_emits_nothing:
  "\<not> is_discarded_by_process event_disabled_env
       (mode (fetch_policy event_disabled_env EVENT_LINK)) EVENT_LINK
   \<and> discarded (the (syscalls
        (run event_disabled_env
           [SYSCALL_KPROBE0_link, KPROBE_do_linkat, KPROBE_vfs_link vfs_link_regs] fresh_state)
        EVENT_LINK)) = 0
   \<and> ctx_retval (KPROBE_CTX ret_ok_regs) = 0
   \<and> \<not> IS_UNHANDLED_ERROR event_disabled_env (ctx_retval (KPROBE_CTX ret_ok_regs))
   \<and> events (run event_disabled_env (link_syscall vfs_link_regs ret_ok_regs) fresh_state) = []"
  by (simp add: hook_defs example_defs Let_def)


text \<open>
  C2, amended. For a link call entered through the link syscall on a thread with no
  pending link entry (the entry pushed at syscall entry is then the one the later
  programs of the call find): when the process-level policy and the approvers do not
  discard it, the resolution of the source
  runs to a terminal state other than DENTRY_DISCARDED, the call returns a status that
  is non-negative and not an unhandled error, the LINK event type is enabled and the
  resolution of the target runs to a terminal state, then exactly one event is sent. It
  has type LINK, its source is the source file record with the path reference of the
  source resolution, its target is the target file record with the path reference of
  the target resolution.
\<close>

theorem accepted_link_emits_one_event:
  assumes fresh: "syscalls s EVENT_LINK = None"
    and accepted: "\<not> is_discarded_by_process e (mode (fetch_policy e EVENT_LINK)) EVENT_LINK"
    and approved: "\<not> filter_syscall e
                      (vfs_link_capture e regs (new_syscall (fetch_policy e EVENT_LINK) SYNC_SYSCALL))"
    and sc: "sc = vfs_link_request e
                    (vfs_link_capture e regs (new_syscall (fetch_policy e EVENT_LINK) SYNC_SYSCALL))"
    and src: "dentry_resolver e (resolver sc) = TERMINAL r1 ref1"
    and kept: "r1 \<noteq> DENTRY_DISCARDED e"
    and ok: "0 \<le> ctx_retval (KPROBE_CTX ret_regs)"
    and handled: "\<not> IS_UNHANDLED_ERROR e (ctx_retval (KPROBE_CTX ret_regs))"
    and enabled: "is_event_enabled e EVENT_LINK"
    and dst: "dentry_resolver e (resolver (link_dst_request sc)) = TERMINAL r2 ref2"
  shows "events (run e (link_syscall regs ret_regs) s) =
         events s @
         [\<lparr>event_type = EVENT_LINK,
           event_timestamp = bpf_ktime_get_ns e,
           event_flags = 0,
           process = fill_process_context e,
           container = fill_container_context e,
           span = fill_span_context e,
           syscall_retval = ctx_retval (KPROBE_CTX ret_regs),
           source = (src_file (link sc))\<lparr>path_ref := ref1\<rparr>,
           target = (target_file (link sc))\<lparr>path_ref := ref2\<rparr>\<rparr>]"
proof -
  define s1 where "s1 = kprobe_do_linkat e (trace__sys_link e SYNC_SYSCALL s)"
  define s2 where "s2 = kprobe_vfs_link e regs s1"
  define sc2 where "sc2 = link_update (src_file_update (path_ref_update (\<lambda>_. ref1)))
                            (resolver_update (ret_update (\<lambda>_. r1)) sc)"
  have whole: "run e (link_syscall regs ret_regs) s =
      sys_link_ret e (KPROBE_CTX ret_regs) (ctx_retval (KPROBE_CTX ret_regs)) DR_KPROBE s2"
    by (simp add: run_link_syscall s1_def s2_def)
  have s1_eq: "s1 = s\<lparr>syscalls := (syscalls s)(EVENT_LINK \<mapsto>
                   new_syscall (fetch_policy e EVENT_LINK) SYNC_SYSCALL),
                 pushes := Suc (pushes s)\<rparr>"
    unfolding s1_def by (rule entry_accepted [OF fresh accepted])
  have e1: "syscalls s1 EVENT_LINK = Some (new_syscall (fetch_policy e EVENT_LINK) SYNC_SYSCALL)"
    by (simp add: s1_eq)
  have s2_eq: "s2 = store_syscall EVENT_LINK sc2
                      (s1\<lparr>ring_buffer_ref := ref1, resolutions := resolutions s1 @ [resolver sc]\<rparr>)"
    unfolding s2_def using approved src kept
    by (simp add: vfs_link_fresh [OF e1] sc [symmetric] Let_def sc2_def)
  have e2: "syscalls s2 EVENT_LINK = Some sc2"
    by (simp add: s2_eq store_syscall_def)
  have ev2: "events s2 = events s"
    by (simp add: s2_eq s1_eq store_syscall_def)
  have sc2_simps: "discarded sc2 = 0" "async sc2 = 0"
    "src_file (link sc2) = (src_file (link sc))\<lparr>path_ref := ref1\<rparr>"
    "target_file (link sc2) = target_file (link sc)"
    "resolver (link_dst_request sc2) = resolver (link_dst_request sc)"
    by (simp_all add: sc2_def sc link_dst_request_def SYNC_SYSCALL_def)
  show ?thesis
    unfolding whole sys_link_ret_events [OF e2]
    using handled enabled dst by (simp add: sc2_simps ev2)
qed

theorem accepted_link_emits_one_event_witness:
  "syscalls fresh_state EVENT_LINK = None
   \<and> 0 \<le> ctx_retval (KPROBE_CTX ret_ok_regs)
   \<and> \<not> IS_UNHANDLED_ERROR example_env (ctx_retval (KPROBE_CTX ret_ok_regs))
   \<and> is_event_enabled example_env EVENT_LINK
   \<and> events (run example_env (link_syscall vfs_link_regs ret_ok_regs) fresh_state) =
       [\<lparr>event_type = EVENT_LINK, event_timestamp = 99, event_flags = 0, process = 7,
         container = 8, span = 9, syscall_retval = 0,
         source = \<lparr>path_key = \<lparr>ino = 4242, mount_id = 27, path_id = 0\<rparr>, flags = 0,
                    metadata = \<lparr>nlink = 1, file_mode = 420, uid = 1000, gid = 1000,
                                ctime = 5, mtime = 6\<rparr>,
                    path_ref = 100\<rparr>,
         target = \<lparr>path_key = \<lparr>ino = 0xdeadc00100001234, mount_id = 27, path_id = 0\<rparr>,
                    flags = 0,
                    metadata = \<lparr>nlink = 1, file_mode = 420, uid = 1000, gid = 1000,
                                ctime = 5, mtime = 6\<rparr>,
                    path_ref = 200\<rparr>\<rparr>]"
proof -
  let ?sc = "vfs_link_request example_env
               (vfs_link_capture example_env vfs_link_regs
                  (new_syscall (fetch_policy example_env EVENT_LINK) SYNC_SYSCALL))"
  have fresh: "syscalls fresh_state EVENT_LINK = None"
    by (simp add: fresh_state_def)
  have accepted: "\<not> is_discarded_by_process example_env
                      (mode (fetch_policy example_env EVENT_LINK)) EVENT_LINK"
    by (simp add: example_env_def)
  have approved: "\<not> filter_syscall example_env
                      (vfs_link_capture example_env vfs_link_regs
                         (new_syscall (fetch_policy example_env EVENT_LINK) SYNC_SYSCALL))"
    by (simp add: example_env_def)
  have src: "dentry_resolver example_env (resolver ?sc) = TERMINAL 3 100"
    by (simp add: example_env_def vfs_link_request_def Let_def)
  have kept: "3 \<noteq> DENTRY_DISCARDED example_env"
    by (simp add: example_env_def)
  have ok: "0 \<le> ctx_retval (KPROBE_CTX ret_ok_regs)"
    by (simp add: ctx_retval_def ret_ok_regs_def)
  have handled: "\<not> IS_UNHANDLED_ERROR example_env (ctx_retval (KPROBE_CTX ret_ok_regs))"
    by (simp add: example_env_def ctx_retval_def ret_ok_regs_def)
  have enabled: "is_event_enabled example_env EVENT_LINK"
    by (simp add: example_env_def)
  have dst: "dentry_resolver example_env (resolver (link_dst_request ?sc)) = TERMINAL 3 200"
    by (simp add: example_env_def link_dst_request_def)
  from accepted_link_emits_one_event
         [OF fresh accepted approved refl src kept ok handled enabled dst]
  show ?thesis
    using fresh ok handled enabled
    by (simp add: hook_defs example_defs Let_def)
qed

text \<open>With an entry left pending by an earlier call that returned an unhandled error, the
  event of the next link call carries the source of the earlier call, and the target
  resolution is requested for the target dentry of the earlier call.\<close>

lemma stale_entry_event_carries_stale_source:
  "length (events (run inode_of_dentry_env
        (link_syscall vfs_link_regs ret_enoent_regs @ link_syscall second_link_regs ret_ok_regs)
        fresh_state)) = 1
   \<and> ino (path_key (source (hd (events (run inode_of_dentry_env
        (link_syscall vfs_link_regs ret_enoent_regs @ link_syscall second_link_regs ret_ok_regs)
        fresh_state))))) = 0x1000
   \<and> resolutions (run inode_of_dentry_env
        (link_syscall vfs_link_regs ret_enoent_regs @ link_syscall second_link_regs ret_ok_regs)
        fresh_state) ! 1
       = \<lparr>dentry = 0x2000,
          key = \<lparr>ino = 0xdeadc00100001234, mount_id = 27, path_id = 0\<rparr>,
          discarder_type = EVENT_ANY, callback = PR_PROGKEY_CB_LINK_DST, iteration = 0, ret = 0\<rparr>"
  by (simp add: hook_defs example_defs Let_def)







subsection \<open>The event of a hard link\<close>

text \<open>
  C7, as stated, fails on the inode: the key of the target is the fake marker in the high
  word and a random number in the low word, whatever the inode of the source is, so for
  a source whose inode is 0xdeadc00100001234 the two are equal.
\<close>

theorem fake_inode_equals_source_inode:
  "ctx_retval (KPROBE_CTX ret_ok_regs) = 0
   \<and> length (events (run fake_range_inode_env (link_syscall vfs_link_regs ret_ok_regs)
        fresh_state)) = 1
   \<and> ino (path_key (target (hd (events
        (run fake_range_inode_env (link_syscall vfs_link_regs ret_ok_regs) fresh_state)))))
     = ino (path_key (source (hd (events
        (run fake_range_inode_env (link_syscall vfs_link_regs ret_ok_regs) fresh_state)))))"
  by (simp add: hook_defs example_defs Let_def)


text \<open>
  C7, amended. For a link call entered through the link syscall on a thread with no
  pending link entry, that returns a non-negative status and sends an event: the event is the only one sent; the inode of
  its target key has FAKE_INODE_MSW in the high 32 bits and the random number in the low
  32 bits, and differs from the inode of the source whenever the high 32 bits of the
  source inode are not FAKE_INODE_MSW; the metadata of the target is the metadata of the
  source; the mount id of the target is the mount id of the source; the event has type
  LINK, a non-negative retval, and flags 0 (the async flag is clear).
\<close>

theorem hard_link_event_fields:
  assumes fresh: "syscalls s EVENT_LINK = None"
    and ok: "0 \<le> ctx_retval (KPROBE_CTX ret_regs)"
    and emitted: "events (run e (link_syscall regs ret_regs) s) \<noteq> events s"
  shows "\<exists>ev. events (run e (link_syscall regs ret_regs) s) = events s @ [ev]
           \<and> drop_bit 32 (ino (path_key (target ev))) = ucast (FAKE_INODE_MSW e)
           \<and> ucast (ino (path_key (target ev))) = bpf_get_prandom_u32 e
           \<and> (drop_bit 32 (ino (path_key (source ev))) \<noteq> ucast (FAKE_INODE_MSW e)
                \<longrightarrow> ino (path_key (target ev)) \<noteq> ino (path_key (source ev)))
           \<and> metadata (target ev) = metadata (source ev)
           \<and> mount_id (path_key (target ev)) = mount_id (path_key (source ev))
           \<and> event_type ev = EVENT_LINK
           \<and> 0 \<le> syscall_retval ev
           \<and> event_flags ev = 0"
proof -
  have "events (run e (link_syscall regs ret_regs) s) = events s
         \<or> (\<exists>sc r reference.
               syscalls (run e [SYSCALL_KPROBE0_link, KPROBE_do_linkat, KPROBE_vfs_link regs] s)
                 EVENT_LINK = Some sc
               \<and> discarded sc = 0 \<and> async sc = 0
               \<and> target_file (link sc) = target_file (link (vfs_link_request e
                    (vfs_link_capture e regs (new_syscall (fetch_policy e EVENT_LINK) SYNC_SYSCALL))))
               \<and> path_key (src_file (link sc)) = path_key (src_file (link (vfs_link_request e
                    (vfs_link_capture e regs (new_syscall (fetch_policy e EVENT_LINK) SYNC_SYSCALL)))))
               \<and> metadata (src_file (link sc)) = metadata (src_file (link (vfs_link_request e
                    (vfs_link_capture e regs (new_syscall (fetch_policy e EVENT_LINK) SYNC_SYSCALL)))))
               \<and> \<not> IS_UNHANDLED_ERROR e (ctx_retval (KPROBE_CTX ret_regs))
               \<and> is_event_enabled e EVENT_LINK
               \<and> dentry_resolver e (resolver (link_dst_request sc)) = TERMINAL r reference
               \<and> events (run e (link_syscall regs ret_regs) s) =
                   events s @
                   [\<lparr>event_type = EVENT_LINK,
                     event_timestamp = bpf_ktime_get_ns e,
                     event_flags = 0,
                     process = fill_process_context e,
                     container = fill_container_context e,
                     span = fill_span_context e,
                     syscall_retval = ctx_retval (KPROBE_CTX ret_regs),
                     source = src_file (link sc),
                     target = (target_file (link sc))\<lparr>path_ref := reference\<rparr>\<rparr>])"
    by (rule link_syscall_outcome [OF fresh])
  then obtain sc :: syscall_cache_t and reference where
    tgt: "target_file (link sc) = target_file (link (vfs_link_request e
            (vfs_link_capture e regs (new_syscall (fetch_policy e EVENT_LINK) SYNC_SYSCALL))))"
    and key: "path_key (src_file (link sc)) = path_key (src_file (link (vfs_link_request e
            (vfs_link_capture e regs (new_syscall (fetch_policy e EVENT_LINK) SYNC_SYSCALL)))))"
    and md: "metadata (src_file (link sc)) = metadata (src_file (link (vfs_link_request e
            (vfs_link_capture e regs (new_syscall (fetch_policy e EVENT_LINK) SYNC_SYSCALL)))))"
    and ev: "events (run e (link_syscall regs ret_regs) s) =
               events s @
               [\<lparr>event_type = EVENT_LINK,
                 event_timestamp = bpf_ktime_get_ns e,
                 event_flags = 0,
                 process = fill_process_context e,
                 container = fill_container_context e,
                 span = fill_span_context e,
                 syscall_retval = ctx_retval (KPROBE_CTX ret_regs),
                 source = src_file (link sc),
                 target = (target_file (link sc))\<lparr>path_ref := reference\<rparr>\<rparr>]"
  proof (elim disjE exE conjE)
    assume "events (run e (link_syscall regs ret_regs) s) = events s"
    with emitted show thesis by simp
  next
    fix sc :: syscall_cache_t and r reference
    assume "target_file (link sc) = target_file (link (vfs_link_request e
              (vfs_link_capture e regs (new_syscall (fetch_policy e EVENT_LINK) SYNC_SYSCALL))))"
      and "path_key (src_file (link sc)) = path_key (src_file (link (vfs_link_request e
              (vfs_link_capture e regs (new_syscall (fetch_policy e EVENT_LINK) SYNC_SYSCALL)))))"
      and "metadata (src_file (link sc)) = metadata (src_file (link (vfs_link_request e
              (vfs_link_capture e regs (new_syscall (fetch_policy e EVENT_LINK) SYNC_SYSCALL)))))"
      and "events (run e (link_syscall regs ret_regs) s) =
               events s @
               [\<lparr>event_type = EVENT_LINK,
                 event_timestamp = bpf_ktime_get_ns e,
                 event_flags = 0,
                 process = fill_process_context e,
                 container = fill_container_context e,
                 span = fill_span_context e,
                 syscall_retval = ctx_retval (KPROBE_CTX ret_regs),
                 source = src_file (link sc),
                 target = (target_file (link sc))\<lparr>path_ref := reference\<rparr>\<rparr>]"
    then show thesis by (rule that)
  qed
  have ino_t: "ino (path_key (target_file (link sc))) =
                 push_bit 32 (ucast (FAKE_INODE_MSW e)) OR ucast (bpf_get_prandom_u32 e)"
    by (simp only: tgt vfs_link_request_target)
  have high: "drop_bit 32 (ino (path_key (target_file (link sc)))) = ucast (FAKE_INODE_MSW e)"
    by (simp only: ino_t fake_inode_high)
  have low: "ucast (ino (path_key (target_file (link sc)))) = bpf_get_prandom_u32 e"
    by (simp only: ino_t fake_inode_low)
  have distinct: "drop_bit 32 (ino (path_key (src_file (link sc)))) \<noteq> ucast (FAKE_INODE_MSW e)
      \<longrightarrow> ino (path_key (target_file (link sc))) \<noteq> ino (path_key (src_file (link sc)))"
    using high by auto
  have same_md: "metadata (target_file (link sc)) = metadata (src_file (link sc))"
    by (simp only: tgt md vfs_link_request_target)
  have same_mount: "mount_id (path_key (target_file (link sc)))
                    = mount_id (path_key (src_file (link sc)))"
    by (simp only: tgt key vfs_link_request_target)
  show ?thesis
    unfolding ev using ok distinct
    by (simp add: high low same_md same_mount)
qed

theorem hard_link_event_fields_witness:
  "syscalls fresh_state EVENT_LINK = None
   \<and> 0 \<le> ctx_retval (KPROBE_CTX ret_ok_regs)
   \<and> events (run example_env (link_syscall vfs_link_regs ret_ok_regs) fresh_state)
       \<noteq> events fresh_state
   \<and> (\<exists>ev. events (run example_env (link_syscall vfs_link_regs ret_ok_regs) fresh_state)
             = events fresh_state @ [ev]
           \<and> drop_bit 32 (ino (path_key (target ev))) = ucast (FAKE_INODE_MSW example_env)
           \<and> ucast (ino (path_key (target ev))) = bpf_get_prandom_u32 example_env
           \<and> ino (path_key (target ev)) \<noteq> ino (path_key (source ev))
           \<and> metadata (target ev) = metadata (source ev)
           \<and> mount_id (path_key (target ev)) = mount_id (path_key (source ev))
           \<and> event_type ev = EVENT_LINK
           \<and> 0 \<le> syscall_retval ev
           \<and> event_flags ev = 0)"
proof -
  have fresh: "syscalls fresh_state EVENT_LINK = None"
    by (simp add: fresh_state_def)
  have ok: "0 \<le> ctx_retval (KPROBE_CTX ret_ok_regs)"
    by (simp add: ctx_retval_def ret_ok_regs_def)
  have emitted: "events (run example_env (link_syscall vfs_link_regs ret_ok_regs) fresh_state)
                 \<noteq> events fresh_state"
    by (simp add: hook_defs example_defs Let_def)
  from hard_link_event_fields [OF fresh ok emitted]
  obtain ev where ev: "events (run example_env (link_syscall vfs_link_regs ret_ok_regs) fresh_state)
             = events fresh_state @ [ev]"
    and fields: "drop_bit 32 (ino (path_key (target ev))) = ucast (FAKE_INODE_MSW example_env)"
      "ucast (ino (path_key (target ev))) = bpf_get_prandom_u32 example_env"
      "drop_bit 32 (ino (path_key (source ev))) \<noteq> ucast (FAKE_INODE_MSW example_env)
         \<longrightarrow> ino (path_key (target ev)) \<noteq> ino (path_key (source ev))"
      "metadata (target ev) = metadata (source ev)"
      "mount_id (path_key (target ev)) = mount_id (path_key (source ev))"
      "event_type ev = EVENT_LINK" "0 \<le> syscall_retval ev" "event_flags ev = 0"
    by blast
  have "source ev = source (last (events
          (run example_env (link_syscall vfs_link_regs ret_ok_regs) fresh_state)))"
    by (simp add: ev)
  then have "ino (path_key (source ev)) = 4242"
    by (simp add: hook_defs example_defs Let_def)
  then have "drop_bit 32 (ino (path_key (source ev))) \<noteq> ucast (FAKE_INODE_MSW example_env)"
    by (simp add: example_env_def)
  with fields(3) have "ino (path_key (target ev)) \<noteq> ino (path_key (source ev))"
    by simp
  with fresh ok emitted ev fields show ?thesis
    by blast
qed

text \<open>With an entry left pending by an asynchronous do_linkat that returned an unhandled
  error, the event of the next link syscall carries the async flag.\<close>

lemma stale_async_entry_sets_async_flag:
  "events (run example_env
        [KPROBE_do_linkat, KPROBE_vfs_link vfs_link_regs, KRETPROBE_do_linkat ret_enoent_regs]
        fresh_state) = []
   \<and> length (events (run example_env
        ([KPROBE_do_linkat, KPROBE_vfs_link vfs_link_regs, KRETPROBE_do_linkat ret_enoent_regs]
         @ link_syscall second_link_regs ret_ok_regs) fresh_state)) = 1
   \<and> event_flags (hd (events (run example_env
        ([KPROBE_do_linkat, KPROBE_vfs_link vfs_link_regs, KRETPROBE_do_linkat ret_enoent_regs]
         @ link_syscall second_link_regs ret_ok_regs) fresh_state)))
       = EVENT_FLAGS_ASYNC example_env
   \<and> EVENT_FLAGS_ASYNC example_env \<noteq> 0"
  by (simp add: hook_defs example_defs Let_def)


subsection \<open>A source that the approvers discard\<close>

text \<open>
  On a thread with no pending link entry, for a link call that the process-level policy
  lets through and whose source the approvers discard (filter_syscall is true for the
  entry once the dentries, the mount id and the inode of the source are captured):
  after vfs_link the entry pushed at syscall entry is still in the cache, marked
  discarded, and no resolution was dispatched; when the call returns a non-negative
  status that is not an unhandled error, the inode of the source key is invalidated (one
  marker, for the mount id and inode of the source), no event is sent, and the entry is
  popped.
\<close>

theorem denied_source_tracked_invalidated_silent:
  assumes fresh: "syscalls s EVENT_LINK = None"
    and accepted: "\<not> is_discarded_by_process e (mode (fetch_policy e EVENT_LINK)) EVENT_LINK"
    and sc: "sc = vfs_link_capture e regs (new_syscall (fetch_policy e EVENT_LINK) SYNC_SYSCALL)"
    and denied: "filter_syscall e sc"
    and ok: "0 \<le> ctx_retval (KPROBE_CTX ret_regs)"
    and handled: "\<not> IS_UNHANDLED_ERROR e (ctx_retval (KPROBE_CTX ret_regs))"
  shows "syscalls (run e [SYSCALL_KPROBE0_link, KPROBE_do_linkat, KPROBE_vfs_link regs] s) EVENT_LINK
           = Some (mark_as_discarded sc)
         \<and> pushes (run e [SYSCALL_KPROBE0_link, KPROBE_do_linkat, KPROBE_vfs_link regs] s)
           = Suc (pushes s)
         \<and> resolutions (run e (link_syscall regs ret_regs) s) = resolutions s
         \<and> invalidations (run e (link_syscall regs ret_regs) s)
           = invalidations s @ [(mount_id (path_key (src_file (link sc))),
                                 ino (path_key (src_file (link sc))), True)]
         \<and> events (run e (link_syscall regs ret_regs) s) = events s
         \<and> syscalls (run e (link_syscall regs ret_regs) s) EVENT_LINK = None"
proof -
  define s1 where "s1 = kprobe_do_linkat e (trace__sys_link e SYNC_SYSCALL s)"
  define s2 where "s2 = kprobe_vfs_link e regs s1"
  define s3 where
    "s3 = sys_link_ret e (KPROBE_CTX ret_regs) (ctx_retval (KPROBE_CTX ret_regs)) DR_KPROBE s2"
  have three: "run e [SYSCALL_KPROBE0_link, KPROBE_do_linkat, KPROBE_vfs_link regs] s = s2"
    by (simp add: s1_def s2_def)
  have whole: "run e (link_syscall regs ret_regs) s = s3"
    by (simp add: run_link_syscall s1_def s2_def s3_def)
  have s1_eq: "s1 = s\<lparr>syscalls := (syscalls s)(EVENT_LINK \<mapsto>
                   new_syscall (fetch_policy e EVENT_LINK) SYNC_SYSCALL),
                 pushes := Suc (pushes s)\<rparr>"
    unfolding s1_def by (rule entry_accepted [OF fresh accepted])
  have e1: "syscalls s1 EVENT_LINK = Some (new_syscall (fetch_policy e EVENT_LINK) SYNC_SYSCALL)"
    by (simp add: s1_eq)
  have s2_eq: "s2 = store_syscall EVENT_LINK (mark_as_discarded sc) s1"
    unfolding s2_def using denied by (simp add: vfs_link_fresh [OF e1] sc Let_def)
  have e2: "syscalls s2 EVENT_LINK = Some (mark_as_discarded sc)"
    by (simp add: s2_eq store_syscall_def)
  have d: "discarded (mark_as_discarded sc) \<noteq> 0" "link (mark_as_discarded sc) = link sc"
    by (simp_all add: mark_as_discarded_def)
  have s3_eq: "s3 = s2\<lparr>invalidations := invalidations s2 @
                        [(mount_id (path_key (src_file (link sc))),
                          ino (path_key (src_file (link sc))), True)],
                      syscalls := (syscalls s2)(EVENT_LINK := None), pops := Suc (pops s2)\<rparr>"
    unfolding s3_def using ok d
    by (simp add: sys_link_ret_entry [OF e2 handled] Let_def invalidate_inode_def)
  show ?thesis
    unfolding three whole
    by (simp add: s3_eq e2) (simp add: s2_eq s1_eq store_syscall_def)
qed

theorem denied_source_tracked_invalidated_silent_witness:
  "syscalls fresh_state EVENT_LINK = None
   \<and> filter_syscall denying_env
        (vfs_link_capture denying_env vfs_link_regs
           (new_syscall (fetch_policy denying_env EVENT_LINK) SYNC_SYSCALL))
   \<and> 0 \<le> ctx_retval (KPROBE_CTX ret_ok_regs)
   \<and> syscalls (run denying_env
         [SYSCALL_KPROBE0_link, KPROBE_do_linkat, KPROBE_vfs_link vfs_link_regs] fresh_state)
        EVENT_LINK \<noteq> None
   \<and> invalidations (run denying_env (link_syscall vfs_link_regs ret_ok_regs) fresh_state)
       = [(27, 4242, True)]
   \<and> events (run denying_env (link_syscall vfs_link_regs ret_ok_regs) fresh_state) = []"
proof -
  let ?sc = "vfs_link_capture denying_env vfs_link_regs
               (new_syscall (fetch_policy denying_env EVENT_LINK) SYNC_SYSCALL)"
  have fresh: "syscalls fresh_state EVENT_LINK = None"
    by (simp add: fresh_state_def)
  have accepted: "\<not> is_discarded_by_process denying_env
                      (mode (fetch_policy denying_env EVENT_LINK)) EVENT_LINK"
    by (simp add: example_defs)
  have denied: "filter_syscall denying_env ?sc"
    by (simp add: example_defs)
  have ok: "0 \<le> ctx_retval (KPROBE_CTX ret_ok_regs)"
    by (simp add: ctx_retval_def ret_ok_regs_def)
  have handled: "\<not> IS_UNHANDLED_ERROR denying_env (ctx_retval (KPROBE_CTX ret_ok_regs))"
    by (simp add: example_defs ctx_retval_def)
  have key: "mount_id (path_key (src_file (link ?sc))) = 27"
    "ino (path_key (src_file (link ?sc))) = 4242"
    by (simp_all add: example_defs vfs_link_capture_def new_syscall_def zero_link_def Let_def)
  from denied_source_tracked_invalidated_silent [OF fresh accepted refl denied ok handled]
  show ?thesis
    using fresh denied ok by (simp add: key) (simp add: fresh_state_def)
qed

text \<open>
  C8. The specification says that for a link instance whose source the approvers deny
  the cache entry is still created and tracked, the inode of the source is invalidated
  on a successful return and no event is emitted. When an earlier call of the thread
  left its entry behind on an unhandled error (C1, C5), the push at syscall entry is a
  no-op, kprobe_vfs_link returns at line 52 on the non-null target dentry of the stale
  entry before it reaches filter_syscall, and the exit probe sends an event built from
  the stale entry. Here the first link call (source 0x1000) returns -2, and the second
  (source 0x5000, which the approvers deny) creates no entry and emits one event whose
  source is the file of the first call.
\<close>

theorem stale_entry_emits_for_denied_source:
  "\<not> filter_syscall deny_second_source_env
       (vfs_link_capture deny_second_source_env vfs_link_regs
          (new_syscall (fetch_policy deny_second_source_env EVENT_LINK) SYNC_SYSCALL))
   \<and> filter_syscall deny_second_source_env
       (vfs_link_capture deny_second_source_env second_link_regs
          (new_syscall (fetch_policy deny_second_source_env EVENT_LINK) SYNC_SYSCALL))
   \<and> events (run deny_second_source_env (link_syscall vfs_link_regs ret_enoent_regs)
        fresh_state) = []
   \<and> pushes (run deny_second_source_env
        (link_syscall vfs_link_regs ret_enoent_regs @ link_syscall second_link_regs ret_ok_regs)
        fresh_state) = 1
   \<and> length (events (run deny_second_source_env
        (link_syscall vfs_link_regs ret_enoent_regs @ link_syscall second_link_regs ret_ok_regs)
        fresh_state)) = 1
   \<and> ino (path_key (source (hd (events (run deny_second_source_env
        (link_syscall vfs_link_regs ret_enoent_regs @ link_syscall second_link_regs ret_ok_regs)
        fresh_state))))) = 0x1000"
  by (simp add: hook_defs example_defs Let_def)


section \<open>Properties of the segmented path resolver\<close>

declare resolve_bounded.simps [simp del] single_pass.simps [simp del]


lemma append_component_grows:
  assumes "\<not> walk_complete h st"
  shows "length (path_buffer (append_component h st)) = Suc (length (path_buffer st))"
    and "iterations (append_component h st) = iterations st"
  using assms
  by (auto simp add: walk_complete_def append_component_def Let_def split: list.splits)

lemma single_pass_terminal: "status st \<noteq> RESOLVING \<Longrightarrow> single_pass h st = st"
  using single_pass.simps [of h st] by simp

lemma resolve_bounded_stops:
  "status st \<noteq> RESOLVING \<Longrightarrow> resolve_bounded h n st = st"
  "status st = RESOLVING \<Longrightarrow> walk_complete h st \<Longrightarrow>
   resolve_bounded h n st = st\<lparr>status := DONE\<rparr>"
  "status st = RESOLVING \<Longrightarrow> \<not> walk_complete h st \<Longrightarrow> resolve_bounded h 0 st = st"
  "status st = RESOLVING \<Longrightarrow> \<not> walk_complete h st \<Longrightarrow>
   resolve_bounded h (Suc n) st = resolve_bounded h n (append_component h st)"
  using resolve_bounded.simps [of h n st] resolve_bounded.simps [of h 0 st]
    resolve_bounded.simps [of h "Suc n" st]
  by simp_all

lemma single_pass_steps:
  "status st = RESOLVING \<Longrightarrow> walk_complete h st \<Longrightarrow> single_pass h st = st\<lparr>status := DONE\<rparr>"
  "status st = RESOLVING \<Longrightarrow> \<not> walk_complete h st \<Longrightarrow>
   single_pass h st = single_pass h (append_component h st)"
  using single_pass.simps [of h st] by simp_all

lemma single_pass_bounded: "single_pass h (resolve_bounded h n st) = single_pass h st"
proof (induction n arbitrary: st)
  case 0
  show ?case
  proof (cases "status st = RESOLVING")
    case False
    then show ?thesis by (simp add: resolve_bounded_stops)
  next
    case True
    then show ?thesis
      by (cases "walk_complete h st")
         (simp_all add: resolve_bounded_stops single_pass_steps single_pass_terminal)
  qed
next
  case (Suc n)
  show ?case
  proof (cases "status st = RESOLVING")
    case False
    then show ?thesis by (simp add: resolve_bounded_stops)
  next
    case True
    then show ?thesis
      by (cases "walk_complete h st")
         (simp_all add: resolve_bounded_stops single_pass_steps single_pass_terminal Suc.IH)
  qed
qed

lemma single_pass_iterations:
  "single_pass h (st\<lparr>iterations := k\<rparr>) = (single_pass h st)\<lparr>iterations := k\<rparr>"
proof (induction h st rule: single_pass.induct)
  case (1 h st)
  have ac: "append_component h (st\<lparr>iterations := k\<rparr>) = (append_component h st)\<lparr>iterations := k\<rparr>"
    by (simp add: append_component_def Let_def split: list.splits)
  have wc: "walk_complete h (st\<lparr>iterations := k\<rparr>) = walk_complete h st"
    by (simp add: walk_complete_def)
  show ?case
    by (subst single_pass.simps, subst (2) single_pass.simps)
       (simp add: ac wc "1.IH")
qed

lemma single_pass_length: "length (path_buffer st) \<le> length (path_buffer (single_pass h st))"
proof (induction h st rule: single_pass.induct)
  case (1 h st)
  show ?case
  proof (cases "status st \<noteq> RESOLVING \<or> walk_complete h st")
    case True
    then show ?thesis by (subst single_pass.simps) auto
  next
    case False
    with "1.IH" have "length (path_buffer (append_component h st))
        \<le> length (path_buffer (single_pass h (append_component h st)))"
      by simp
    with False show ?thesis
      by (subst single_pass.simps) (simp add: append_component_grows)
  qed
qed

lemma single_pass_iterations_same: "iterations (single_pass h st) = iterations st"
proof (induction h st rule: single_pass.induct)
  case (1 h st)
  show ?case
  proof (cases "status st \<noteq> RESOLVING \<or> walk_complete h st")
    case True
    then show ?thesis by (subst single_pass.simps) auto
  next
    case False
    with "1.IH" show ?thesis
      by (subst single_pass.simps) (simp add: append_component_grows)
  qed
qed

lemma single_pass_status: "status (single_pass h st) \<noteq> RESOLVING"
proof (induction h st rule: single_pass.induct)
  case (1 h st)
  show ?case
  proof (cases "status st \<noteq> RESOLVING \<or> walk_complete h st")
    case True
    then show ?thesis by (subst single_pass.simps) auto
  next
    case False
    with "1.IH" show ?thesis
      by (subst single_pass.simps) simp
  qed
qed

text \<open>An invocation that ends with the walk incomplete used its whole budget.\<close>

lemma resolve_bounded_exhausted:
  "status (resolve_bounded h n st) = RESOLVING \<Longrightarrow>
   length (path_buffer (resolve_bounded h n st)) = length (path_buffer st) + n
   \<and> iterations (resolve_bounded h n st) = iterations st"
proof (induction n arbitrary: st)
  case 0
  then show ?case
    by (cases "status st = RESOLVING"; cases "walk_complete h st")
       (simp_all add: resolve_bounded_stops)
next
  case (Suc n)
  show ?case
  proof (cases "status st = RESOLVING \<and> \<not> walk_complete h st")
    case True
    with Suc.prems Suc.IH [of "append_component h st"] show ?thesis
      by (simp add: resolve_bounded_stops append_component_grows)
  next
    case False
    with Suc.prems show ?thesis
      by (cases "status st = RESOLVING") (auto simp add: resolve_bounded_stops)
  qed
qed

lemma resolve_bounded_iterations: "iterations (resolve_bounded h n st) = iterations st"
proof (induction n arbitrary: st)
  case 0
  show ?case by (subst resolve_bounded.simps) simp
next
  case (Suc n)
  show ?case
  proof (cases "status st \<noteq> RESOLVING \<or> walk_complete h st")
    case True
    then show ?thesis by (subst resolve_bounded.simps) auto
  next
    case False
    then show ?thesis
      by (subst resolve_bounded.simps) (simp add: Suc.IH append_component_grows)
  qed
qed

text \<open>An invocation whose budget covers what is left of the walk ends in a terminal state.\<close>

lemma resolve_bounded_finishes:
  "length (path_buffer (single_pass h st)) \<le> length (path_buffer st) + n \<Longrightarrow>
   status (resolve_bounded h n st) \<noteq> RESOLVING"
proof (induction n arbitrary: st)
  case 0
  show ?case
  proof (cases "status st \<noteq> RESOLVING \<or> walk_complete h st")
    case True
    then show ?thesis by (subst resolve_bounded.simps) auto
  next
    case False
    then have "single_pass h st = single_pass h (append_component h st)"
      by (subst single_pass.simps) simp
    with single_pass_length [of "append_component h st" h] False "0.prems"
    show ?thesis by (simp add: append_component_grows)
  qed
next
  case (Suc n)
  show ?case
  proof (cases "status st \<noteq> RESOLVING \<or> walk_complete h st")
    case True
    then show ?thesis by (subst resolve_bounded.simps) auto
  next
    case False
    then have sp: "single_pass h st = single_pass h (append_component h st)"
      by (subst single_pass.simps) simp
    from False have "resolve_bounded h (Suc n) st = resolve_bounded h n (append_component h st)"
      by (subst resolve_bounded.simps) simp
    moreover have "status (resolve_bounded h n (append_component h st)) \<noteq> RESOLVING"
      using Suc.prems False by (intro Suc.IH) (simp add: sp [symmetric] append_component_grows)
    ultimately show ?thesis by simp
  qed
qed


lemma resolve_bounded_length:
  "length (path_buffer (resolve_bounded h n st)) \<le> length (path_buffer st) + n"
proof (induction n arbitrary: st)
  case 0
  show ?case
    by (cases "status st = RESOLVING"; cases "walk_complete h st")
       (simp_all add: resolve_bounded_stops)
next
  case (Suc n)
  show ?case
  proof (cases "status st = RESOLVING \<and> \<not> walk_complete h st")
    case True
    with Suc.IH [of "append_component h st"] show ?thesis
      by (simp add: resolve_bounded_stops append_component_grows)
  next
    case False
    then show ?thesis
      by (cases "status st = RESOLVING") (auto simp add: resolve_bounded_stops)
  qed
qed

text \<open>ceil (m / b) for positive b.\<close>

lemma ceil_div_step:
  fixes m b :: nat
  assumes "0 < b" and "b < m"
  shows "(m + b - 1) div b = Suc ((m - b + b - 1) div b)"
proof -
  have e1: "m + b - 1 = (m - 1) + b" using assms by arith
  have e2: "m - b + b - 1 = m - 1" using assms by arith
  have "b \<noteq> 0" using assms(1) by simp
  then have "((m - 1) + b) div b = (m - 1) div b + 1"
    by (rule div_add_self2)
  then show ?thesis
    by (simp only: e1 e2 Suc_eq_plus1)
qed

lemma ceil_div_one:
  fixes m b :: nat
  assumes "0 < m" and "m \<le> b"
  shows "(m + b - 1) div b = 1"
proof (rule div_nat_eqI)
  show "b * 1 \<le> m + b - 1" using assms by simp
  show "m + b - 1 < b * Suc 1" using assms by simp
qed

lemma ceil_div_pos:
  fixes m b :: nat
  assumes "0 < m" and "0 < b"
  shows "0 < (m + b - 1) div b"
proof -
  have "b \<le> m + b - 1" using assms by arith
  with assms(2) show ?thesis
    by (simp only: div_greater_zero_iff)
qed

lemma resolve_segmented_chain:
  assumes B: "0 < budget h"
  shows "status st = RESOLVING \<Longrightarrow>
         m = length (path_buffer (single_pass h st)) - length (path_buffer st) \<Longrightarrow>
         0 < m \<Longrightarrow>
         (\<forall>i. iterations st \<le> i \<and> Suc i < iterations st + (m + budget h - 1) div budget h
               \<longrightarrow> continues h i) \<Longrightarrow>
         resolve_segmented h st =
           Some ((single_pass h st)\<lparr>iterations :=
                   iterations st + (m + budget h - 1) div budget h - 1\<rparr>)"
proof (induction m arbitrary: st rule: less_induct)
  case (less m)
  define st1 where "st1 = resolve_bounded h (budget h) st"
  have sp1: "single_pass h st1 = single_pass h st"
    by (simp add: st1_def single_pass_bounded)
  have it1: "iterations st1 = iterations st"
    by (simp add: st1_def resolve_bounded_iterations)
  have len: "length (path_buffer (single_pass h st)) = length (path_buffer st) + m"
    using less.prems(2) single_pass_length [of st h] by simp
  show ?case
  proof (cases "m \<le> budget h")
    case True
    then have fin: "status st1 \<noteq> RESOLVING"
      unfolding st1_def by (intro resolve_bounded_finishes) (simp add: len)
    then have "st1 = single_pass h st"
      using sp1 single_pass_terminal [of st1 h] by simp
    moreover have "resolve_segmented h st = Some st1"
      using fin by (subst resolve_segmented.simps) (simp add: st1_def [symmetric] Let_def)
    moreover have "iterations (single_pass h st) = iterations st"
      by (rule single_pass_iterations_same)
    ultimately show ?thesis
      using ceil_div_one [OF less.prems(3) True] by simp
  next
    case False
    then have big: "budget h < m" by simp
    have run1: "status st1 = RESOLVING"
    proof (rule ccontr)
      assume "status st1 \<noteq> RESOLVING"
      then have "st1 = single_pass h st"
        using sp1 single_pass_terminal [of st1 h] by simp
      moreover have "length (path_buffer st1) \<le> length (path_buffer st) + budget h"
        unfolding st1_def by (rule resolve_bounded_length)
      ultimately show False using len big by simp
    qed
    have len1: "length (path_buffer st1) = length (path_buffer st) + budget h"
      using resolve_bounded_exhausted [of h "budget h" st] run1 by (simp add: st1_def)
    define st2 where "st2 = st1\<lparr>iterations := Suc (iterations st1)\<rparr>"
    have sp2: "single_pass h st2 = (single_pass h st)\<lparr>iterations := Suc (iterations st)\<rparr>"
      by (simp add: st2_def single_pass_iterations sp1 it1)
    have ceil: "(m + budget h - 1) div budget h
                = Suc ((m - budget h + budget h - 1) div budget h)"
      by (rule ceil_div_step [OF B big])
    have more: "0 < (m - budget h + budget h - 1) div budget h"
      using big B ceil_div_pos [of "m - budget h" "budget h"] by simp
    have go: "continues h (iterations st1)"
      using less.prems(4) ceil more by (simp add: it1)
    have unfold: "resolve_segmented h st = resolve_segmented h st2"
      using run1 go
      by (subst resolve_segmented.simps) (simp add: st1_def [symmetric] st2_def Let_def)
    have ih: "resolve_segmented h st2 =
        Some ((single_pass h st2)\<lparr>iterations :=
                iterations st2 + (m - budget h + budget h - 1) div budget h - 1\<rparr>)"
    proof (rule less.IH [of "m - budget h" st2])
      show "m - budget h < m" using B big by simp
      show "status st2 = RESOLVING" by (simp add: st2_def run1)
      show "m - budget h = length (path_buffer (single_pass h st2)) - length (path_buffer st2)"
        by (simp add: sp2 len) (simp add: st2_def len1)
      show "0 < m - budget h" using big by simp
      show "\<forall>i. iterations st2 \<le> i \<and>
                Suc i < iterations st2 + (m - budget h + budget h - 1) div budget h
                \<longrightarrow> continues h i"
        using less.prems(4) ceil by (simp add: st2_def it1)
    qed
    show ?thesis
      unfolding unfold ih sp2 using ceil more by (simp add: st2_def it1)
  qed
qed


text \<open>
  C6, as stated, fails. For the entry of /a/b/c (depth 3) and a budget of 2, ceil(D/B) is
  2. With nothing cached and every continuation issued the walk ends in DONE after one
  continuation (two invocations). With the ancestor /a in the directory-resolution cache
  it ends in DONE in the first invocation, with the two components c and b. With no
  continuation issued it ends in ERROR after the first invocation, with c and b only,
  while the single pass yields c, b, a.
\<close>

theorem segmented_resolution_miscounts:
  "length abc_dentry = 3
   \<and> budget example_host = 2
   \<and> (3 + budget example_host - 1) div budget example_host = 2
   \<and> resolve_segmented example_host (resolver_start abc_dentry EVENT_ANY)
       = Some \<lparr>current = [], discarder = EVENT_ANY, iterations = 1,
               path_buffer = [''c'', ''b'', ''a''], status = DONE\<rparr>
   \<and> resolve_segmented cached_ancestor_host (resolver_start abc_dentry EVENT_ANY)
       = Some \<lparr>current = [''a''], discarder = EVENT_ANY, iterations = 0,
               path_buffer = [''c'', ''b''], status = DONE\<rparr>
   \<and> resolve_segmented no_continuation_host (resolver_start abc_dentry EVENT_ANY)
       = Some \<lparr>current = [''a''], discarder = EVENT_ANY, iterations = 0,
               path_buffer = [''c'', ''b''], status = ERROR\<rparr>
   \<and> path_buffer (single_pass no_continuation_host (resolver_start abc_dentry EVENT_ANY))
       = [''c'', ''b'', ''a'']"
  by (simp add: resolve_segmented.simps resolve_bounded.simps single_pass.simps
      example_host_def cached_ancestor_host_def no_continuation_host_def abc_dentry_def
      resolver_start_def walk_complete_def append_component_def Let_def)


text \<open>
  C6, amended. With a positive step budget B, for a walk whose unbounded single pass from
  the starting directory entry appends D components (the directory depth when no
  ancestor is cached and no discarder matches), D greater than B, and whose
  continuations are issued: the chain of bounded invocations returns, in a terminal
  state, the terminal state of the single pass, with the same sequence of components in
  the same order, after ceil(D/B) invocations, that is the first one and ceil(D/B) - 1
  continuations (iterations counts the continuations).
\<close>

theorem segmented_resolution_refines_single_pass:
  assumes "0 < budget h"
    and "D = length (path_buffer (single_pass h (resolver_start d t)))"
    and "budget h < D"
    and "\<forall>i. Suc i < (D + budget h - 1) div budget h \<longrightarrow> continues h i"
  shows "\<exists>st. resolve_segmented h (resolver_start d t) = Some st
           \<and> status st = status (single_pass h (resolver_start d t))
           \<and> status st \<noteq> RESOLVING
           \<and> path_buffer st = path_buffer (single_pass h (resolver_start d t))
           \<and> Suc (iterations st) = (D + budget h - 1) div budget h"
proof -
  have start: "status (resolver_start d t) = RESOLVING" "iterations (resolver_start d t) = 0"
    "path_buffer (resolver_start d t) = []"
    by (simp_all add: resolver_start_def)
  have pos: "0 < D" using assms(3) by simp
  have "resolve_segmented h (resolver_start d t) =
          Some ((single_pass h (resolver_start d t))\<lparr>iterations :=
                  iterations (resolver_start d t) + (D + budget h - 1) div budget h - 1\<rparr>)"
    using assms(4)
    by (intro resolve_segmented_chain [OF assms(1) start(1) _ pos]) (simp_all add: start assms(2))
  moreover have "0 < (D + budget h - 1) div budget h"
    by (rule ceil_div_pos [OF pos assms(1)])
  ultimately show ?thesis
    by (simp add: start single_pass_status)
qed

theorem segmented_resolution_refines_single_pass_witness:
  "0 < budget example_host
   \<and> length (path_buffer (single_pass example_host (resolver_start abc_dentry EVENT_ANY))) = 3
   \<and> budget example_host < 3
   \<and> (\<exists>st. resolve_segmented example_host (resolver_start abc_dentry EVENT_ANY) = Some st
          \<and> status st = DONE
          \<and> path_buffer st = [''c'', ''b'', ''a'']
          \<and> Suc (iterations st) = 2)"
proof -
  have sp: "single_pass example_host (resolver_start abc_dentry EVENT_ANY) =
            \<lparr>current = [], discarder = EVENT_ANY, iterations = 0,
             path_buffer = [''c'', ''b'', ''a''], status = DONE\<rparr>"
    by (simp add: single_pass.simps example_host_def abc_dentry_def resolver_start_def
        walk_complete_def append_component_def)
  have B: "0 < budget example_host" "budget example_host < 3" "budget example_host = 2"
    by (simp_all add: example_host_def)
  have D: "3 = length (path_buffer (single_pass example_host (resolver_start abc_dentry EVENT_ANY)))"
    by (simp add: sp)
  have go: "\<forall>i. Suc i < (3 + budget example_host - 1) div budget example_host
              \<longrightarrow> continues example_host i"
    by (simp add: example_host_def)
  from segmented_resolution_refines_single_pass [OF B(1) D B(2) go]
  have "\<exists>st. resolve_segmented example_host (resolver_start abc_dentry EVENT_ANY) = Some st
          \<and> status st = DONE
          \<and> path_buffer st = [''c'', ''b'', ''a'']
          \<and> Suc (iterations st) = 2"
    by (simp add: sp B(3)) blast
  with B D show ?thesis
    by simp
qed

section \<open>Properties of read_into_buffer\<close>

lemma final_size_minus_one:
  fixes x :: u64
  assumes "0 < x" and "x < 2 ^ 32"
  shows "unat ((ucast x :: u32) - 1) = unat x - 1"
proof -
  have lt: "unat x < 2 ^ 32"
    using assms(2) by (simp add: word_less_nat_alt)
  have u: "unat (ucast x :: u32) = unat x"
    using lt by (simp add: unsigned_ucast_eq take_bit_nat_eq_self)
  have pos: "0 < unat x"
    using assms(1) by (simp add: word_less_nat_alt)
  then have "(ucast x :: u32) \<noteq> 0"
    using u by (metis less_numeral_extra(3) unat_0)
  then have "unat ((ucast x :: u32) - 1) = unat (ucast x :: u32) - 1"
    by (rule unat_minus_one)
  then show ?thesis by (simp add: u)
qed

text \<open>For a positive data_size the copy stays inside the buffer and the last byte of the
  buffer stays zero.\<close>

lemma read_into_buffer_bounded:
  assumes pos: "0 < data_size" and small: "HTTP_BUFFER_SIZE < 2 ^ 32"
    and nonempty: "0 < HTTP_BUFFER_SIZE"
  shows "read_into_buffer HTTP_BUFFER_SIZE user faults m buffer data data_size
           (buffer + (HTTP_BUFFER_SIZE - 1)) = 0
         \<and> (\<forall>a. unat HTTP_BUFFER_SIZE \<le> unat (a - buffer) \<longrightarrow>
               read_into_buffer HTTP_BUFFER_SIZE user faults m buffer data data_size a = m a)"
proof -
  define x where "x = (if data_size < HTTP_BUFFER_SIZE then data_size else HTTP_BUFFER_SIZE)"
  have x_pos: "0 < x" and x_le: "x \<le> HTTP_BUFFER_SIZE"
    using pos nonempty by (auto simp add: x_def)
  have x_small: "x < 2 ^ 32"
    using x_le small by simp
  have sz: "unat ((ucast x :: u32) - 1) = unat x - 1"
    by (rule final_size_minus_one [OF x_pos x_small])
  have le: "unat x \<le> unat HTTP_BUFFER_SIZE"
    using x_le by (simp add: word_le_nat_alt)
  have last: "unat (HTTP_BUFFER_SIZE - 1) = unat HTTP_BUFFER_SIZE - 1"
    using nonempty by (simp add: unat_minus_one)
  have hpos: "0 < unat HTTP_BUFFER_SIZE"
    using nonempty by (simp add: word_less_nat_alt)
  show ?thesis
    using le hpos
    by (auto simp add: read_into_buffer_def bpf_memset_def
        bpf_probe_read_user_with_telemetry_def Let_def x_def [symmetric] sz last)
qed

text \<open>
  C9. The specification bounds the copy by HTTP_BUFFER_SIZE and leaves the byte at index
  HTTP_BUFFER_SIZE - 1 zero, for every data_size. For data_size = 0, final_size is 0 and
  final_size - 1 wraps to 4294967295 on 32 bits: with a buffer of 160 bytes at 0x1000,
  the byte at index 159 is a byte of user data, and the byte at index 160, past the end
  of the buffer, is overwritten (with user data, or with zero when the read faults).
\<close>

theorem read_into_buffer_zero_size_overruns:
  "read_into_buffer 160 user_As False poisoned_memory 0x1000 0x8000 0 (0x1000 + 159) = 0x41
   \<and> read_into_buffer 160 user_As False poisoned_memory 0x1000 0x8000 0 (0x1000 + 160) = 0x41
   \<and> read_into_buffer 160 user_As True poisoned_memory 0x1000 0x8000 0 (0x1000 + 160) = 0
   \<and> poisoned_memory (0x1000 + 160) = 0x55"
  by (simp add: read_into_buffer_def bpf_memset_def bpf_probe_read_user_with_telemetry_def
      Let_def user_As_def poisoned_memory_def unsigned_minus_1_eq_mask mask_eq_exp_minus_1)

end
